theory Spec2Isabelle
  imports Main "HOL-Library.AList" "HOL-Library.Sublist"
begin

section \<open>JSON values and the Python built-ins used by the code\<close>

text \<open>
  The values that travel over the pipes are JSON values. A Python \<open>dict\<close> keeps its
  insertion order, so an object is an association list; \<open>None\<close> is \<open>JNull\<close>.
  Numbers are Python's unbounded integers (the floating-point fragment of JSON is not
  part of the model). Characters are the 256 values of \<open>char\<close>.
\<close>

datatype json =
    JNull
  | JBool bool
  | JInt int
  | JStr string
  | JArr "json list"
  | JObj "(string \<times> json) list"

text \<open>
  Exceptions are values: the class of the exception and the text \<open>str(e)\<close> gives.
\<close>

datatype exn =
    ValueError string
  | TypeError string
  | AttributeError string
  | KeyError string
  | RuntimeError string
  | OSError string
  | JSONDecodeError string

fun str_exn :: "exn \<Rightarrow> string" where
  "str_exn (ValueError m) = m"
| "str_exn (TypeError m) = m"
| "str_exn (AttributeError m) = m"
| "str_exn (KeyError m) = m"
| "str_exn (RuntimeError m) = m"
| "str_exn (OSError m) = m"
| "str_exn (JSONDecodeError m) = m"

text \<open>
  The \<open>json\<close> module of the standard library is not code of the repository: it
  is a parameter of the model. \<open>loads\<close> returns the parsed value or the text of the
  \<open>JSONDecodeError\<close>; \<open>dumps\<close> renders a value on one line.
\<close>

record json_module =
  loads :: "string \<Rightarrow> string + json"
  dumps :: "json \<Rightarrow> string"

text \<open>\<open>d.get(k, default)\<close> on a dict.\<close>

definition dict_get :: "(string \<times> json) list \<Rightarrow> string \<Rightarrow> json \<Rightarrow> json" where
  "dict_get d k dflt = (case map_of d k of None \<Rightarrow> dflt | Some v \<Rightarrow> v)"

text \<open>\<open>type(v).__name__\<close>, as it appears in the messages of the interpreter.\<close>

fun type_name :: "json \<Rightarrow> string" where
  "type_name JNull = ''NoneType''"
| "type_name (JBool b) = ''bool''"
| "type_name (JInt i) = ''int''"
| "type_name (JStr s) = ''str''"
| "type_name (JArr xs) = ''list''"
| "type_name (JObj d) = ''dict''"

text \<open>
  \<open>v.get\<close> on a value that is not a dict raises \<open>AttributeError\<close>.
\<close>

definition no_get :: "json \<Rightarrow> exn" where
  "no_get v = AttributeError ([CHR 0x27] @ type_name v @ [CHR 0x27] @ '' object has no attribute '' @ [CHR 0x27] @ ''get'' @ [CHR 0x27])"

text \<open>\<open>str.strip()\<close>: the characters \<open>str.isspace\<close> accepts, below code 256.\<close>

definition py_isspace :: "char \<Rightarrow> bool" where
  "py_isspace ch =
     (let c = (of_char ch :: nat)
      in (9 \<le> c \<and> c \<le> 13) \<or> (28 \<le> c \<and> c \<le> 32) \<or> c = 133 \<or> c = 160)"

definition strip :: "string \<Rightarrow> string" where
  "strip s = rev (dropWhile py_isspace (rev (dropWhile py_isspace s)))"

text \<open>\<open>str(n)\<close> of an integer: decimal digits, with a sign in front.\<close>

function str_nat :: "nat \<Rightarrow> string" where
  "str_nat n = (if n < 10 then [char_of (48 + n)] else str_nat (n div 10) @ [char_of (48 + n mod 10)])"
  by pat_completeness auto
termination
  by (relation "measure id") auto

definition str_int :: "int \<Rightarrow> string" where
  "str_int i = (if i < 0 then CHR ''-'' # str_nat (nat (- i)) else str_nat (nat i))"

text \<open>
  \<open>repr(s)\<close> of a string: single quotes, unless the string holds a single quote and no
  double quote; the quote and the backslash are escaped, tab, newline and carriage return
  have their letters, every other non-printable character is written \<open>\xNN\<close>.
\<close>

definition hex_digit :: "nat \<Rightarrow> char" where
  "hex_digit n = (if n < 10 then char_of (48 + n) else char_of (87 + n))"

definition py_isprintable :: "char \<Rightarrow> bool" where
  "py_isprintable ch =
     (let c = (of_char ch :: nat)
      in (32 \<le> c \<and> c < 127) \<or> (161 \<le> c \<and> c \<noteq> 173))"

definition repr_char :: "char \<Rightarrow> char \<Rightarrow> string" where
  "repr_char q ch =
     (if ch = q \<or> ch = CHR 0x5C then [CHR 0x5C, ch]
      else if ch = CHR 0x09 then [CHR 0x5C, CHR ''t'']
      else if ch = CHR 0x0A then [CHR 0x5C, CHR ''n'']
      else if ch = CHR 0x0D then [CHR 0x5C, CHR ''r'']
      else if py_isprintable ch then [ch]
      else [CHR 0x5C, CHR ''x'', hex_digit (of_char ch div 16), hex_digit (of_char ch mod 16)])"

definition repr_str :: "string \<Rightarrow> string" where
  "repr_str s =
     (let q = (if CHR 0x27 \<in> set s \<and> CHR 0x22 \<notin> set s then CHR 0x22 else CHR 0x27)
      in [q] @ concat (map (repr_char q) s) @ [q])"

text \<open>\<open>', '.join(xs)\<close>.\<close>

fun join_comma :: "string list \<Rightarrow> string" where
  "join_comma [] = []"
| "join_comma [x] = x"
| "join_comma (x # y # ys) = x @ '', '' @ join_comma (y # ys)"

text \<open>\<open>repr(v)\<close> of a value built from None, booleans, integers, strings, lists and dicts.\<close>

fun py_repr :: "json \<Rightarrow> string"
  and py_repr_items :: "json list \<Rightarrow> string list"
  and py_repr_pairs :: "(string \<times> json) list \<Rightarrow> string list" where
  "py_repr JNull = ''None''"
| "py_repr (JBool b) = (if b then ''True'' else ''False'')"
| "py_repr (JInt i) = str_int i"
| "py_repr (JStr s) = repr_str s"
| "py_repr (JArr xs) = ''['' @ join_comma (py_repr_items xs) @ '']''"
| "py_repr (JObj d) = ''{'' @ join_comma (py_repr_pairs d) @ ''}''"
| "py_repr_items [] = []"
| "py_repr_items (x # xs) = py_repr x # py_repr_items xs"
| "py_repr_pairs [] = []"
| "py_repr_pairs (kv # d) = (repr_str (fst kv) @ '': '' @ py_repr (snd kv)) # py_repr_pairs d"

text \<open>\<open>str(v)\<close>, as an f-string formats it: a string is itself, the rest is its \<open>repr\<close>.\<close>

definition py_str :: "json \<Rightarrow> string" where
  "py_str v = (case v of JStr s \<Rightarrow> s | _ \<Rightarrow> py_repr v)"

section \<open>The worker: \<open>server.py\<close>\<close>

text \<open>
  What a handler hands back: a value \<open>json.dumps\<close> accepts, or one it rejects
  (with the text of the \<open>TypeError\<close> it raises).
\<close>

datatype pyval = Enc json | NonEnc string

text \<open>
  \<open>ToolHandler\<close>: the name of the subclass, the three class attributes and
  \<open>handle\<close>, which returns a value or raises an \<open>Exception\<close>.
\<close>

record tool_handler =
  class_name :: string
  name :: string
  description :: string
  parameters :: "(string \<times> json) list"
  handle :: "json \<Rightarrow> exn + pyval"

definition get_schema :: "tool_handler \<Rightarrow> json" where
  "get_schema h =
     JObj [(''name'', JStr (name h)),
           (''description'', JStr (description h)),
           (''parameters'', JObj [(''type'', JStr ''object''),
                                  (''properties'', JObj (parameters h))])]"

text \<open>
  \<open>StdioToolServer._handlers\<close> is a dict from tool name to handler; \<open>h[k] = v\<close> replaces
  the value of a key in place and appends a new key, which is \<open>AList.update\<close>.
\<close>

type_synonym handlers = "(string \<times> tool_handler) list"

definition register :: "tool_handler \<Rightarrow> handlers \<Rightarrow> exn + handlers" where
  "register h hs =
     (if name h = [] then Inl (ValueError (''ToolHandler '' @ class_name h @ '' has no name''))
      else Inr (AList.update (name h) h hs))"

text \<open>\<open>list(self._handlers.keys())\<close>, as a value and as an f-string prints it.\<close>

definition tool_names :: "handlers \<Rightarrow> string list" where
  "tool_names hs = map fst hs"

definition unknown_tool_message :: "json \<Rightarrow> handlers \<Rightarrow> string" where
  "unknown_tool_message tool_name hs =
     ''Unknown tool: '' @ [CHR 0x27] @ py_str tool_name @ [CHR 0x27] @ ''. '' @
     ''Available: '' @ py_repr (JArr (map JStr (tool_names hs)))"

definition unknown_method_message :: "json \<Rightarrow> string" where
  "unknown_method_message method =
     ''Unknown method: '' @ [CHR 0x27] @ py_str method @ [CHR 0x27]"

text \<open>
  \<open>self._handlers.get(tool_name)\<close>: a list or a dict as key raises \<open>TypeError\<close>
  (unhashable); any other value that is not a registered name gives \<open>None\<close>.
\<close>

definition handlers_get :: "handlers \<Rightarrow> json \<Rightarrow> exn + tool_handler option" where
  "handlers_get hs k =
     (case k of
        JStr n \<Rightarrow> Inr (map_of hs n)
      | JArr xs \<Rightarrow> Inl (TypeError (''unhashable type: '' @ [CHR 0x27] @ ''list'' @ [CHR 0x27]))
      | JObj d \<Rightarrow> Inl (TypeError (''unhashable type: '' @ [CHR 0x27] @ ''dict'' @ [CHR 0x27]))
      | _ \<Rightarrow> Inr None)"

definition dispatch :: "handlers \<Rightarrow> json \<Rightarrow> json \<Rightarrow> exn + pyval" where
  "dispatch hs method params =
     (if method = JStr ''ping'' then
        Inr (Enc (JObj [(''status'', JStr ''ok''),
                        (''tools'', JArr (map JStr (tool_names hs)))]))
      else if method = JStr ''tools/list'' then
        Inr (Enc (JArr (map (\<lambda>kv. get_schema (snd kv)) hs)))
      else if method = JStr ''tools/call'' then
        (case params of
           JObj p \<Rightarrow>
             (let tool_name = dict_get p ''name'' (JStr '''');
                  tool_params = dict_get p ''arguments'' (JObj [])
              in case handlers_get hs tool_name of
                   Inl e \<Rightarrow> Inl e
                 | Inr None \<Rightarrow> Inl (ValueError (unknown_tool_message tool_name hs))
                 | Inr (Some handler) \<Rightarrow> handle handler tool_params)
         | _ \<Rightarrow> Inl (no_get params))
      else Inl (ValueError (unknown_method_message method)))"

text \<open>
  Standard output is the sequence of strings written to it. \<open>_write_result\<close> raises
  before it writes when \<open>json.dumps\<close> rejects the result.
\<close>

definition result_response :: "json \<Rightarrow> json \<Rightarrow> json" where
  "result_response request_id result =
     JObj [(''jsonrpc'', JStr ''2.0''), (''id'', request_id), (''result'', result)]"

definition error_response :: "json \<Rightarrow> int \<Rightarrow> string \<Rightarrow> json" where
  "error_response request_id code message =
     JObj [(''jsonrpc'', JStr ''2.0''), (''id'', request_id),
           (''error'', JObj [(''code'', JInt code), (''message'', JStr message)])]"

definition write_line :: "json_module \<Rightarrow> json \<Rightarrow> string list \<Rightarrow> string list" where
  "write_line js response out = out @ [dumps js response @ [CHR 0x0A]]"

definition write_result :: "json_module \<Rightarrow> json \<Rightarrow> pyval \<Rightarrow> string list \<Rightarrow> exn + string list" where
  "write_result js request_id result out =
     (case result of
        Enc v \<Rightarrow> Inr (write_line js (result_response request_id v) out)
      | NonEnc m \<Rightarrow> Inl (TypeError m))"

definition write_error :: "json_module \<Rightarrow> json \<Rightarrow> int \<Rightarrow> string \<Rightarrow> string list \<Rightarrow> string list" where
  "write_error js request_id code message out =
     write_line js (error_response request_id code message) out"

text \<open>
  The body of the second \<open>try\<close> of \<open>run\<close>: dispatch and write the result; any
  \<open>Exception\<close> of either becomes an error response with code -32603.
\<close>

definition answer :: "json_module \<Rightarrow> handlers \<Rightarrow> json \<Rightarrow> json \<Rightarrow> json \<Rightarrow> string list \<Rightarrow> string list" where
  "answer js hs request_id method params out =
     (case dispatch hs method params of
        Inl e \<Rightarrow> write_error js request_id (- 32603) (str_exn e) out
      | Inr result \<Rightarrow>
          (case write_result js request_id result out of
             Inl e \<Rightarrow> write_error js request_id (- 32603) (str_exn e) out
           | Inr out' \<Rightarrow> out'))"

text \<open>
  \<open>StdioToolServer.run\<close> over the lines \<open>sys.stdin\<close> yields, from the output written
  so far. It returns the output and, when the loop ended by an exception that
  nothing catches (\<open>request.get\<close> on a parsed value that is not a dict), that exception;
  \<open>None\<close> is the end of the input.
\<close>

fun run :: "json_module \<Rightarrow> handlers \<Rightarrow> string list \<Rightarrow> string list \<Rightarrow> string list \<times> exn option" where
  "run js hs [] out = (out, None)"
| "run js hs (raw # rest) out =
     (let line = strip raw in
      if line = [] then run js hs rest out
      else
        (case loads js line of
           Inl e \<Rightarrow> run js hs rest (write_error js JNull (- 32700) (''Parse error: '' @ e) out)
         | Inr request \<Rightarrow>
             (case request of
                JObj d \<Rightarrow>
                  (let request_id = dict_get d ''id'' JNull;
                       method = dict_get d ''method'' (JStr '''');
                       params = dict_get d ''params'' (JObj [])
                   in run js hs rest (answer js hs request_id method params out))
              | _ \<Rightarrow> (out, Some (no_get request)))))"

section \<open>The transport: \<open>transport.py\<close>\<close>

text \<open>
  \<open>JsonRpcRequest\<close> and \<open>JsonRpcResponse\<close>. The fields carry a prefix (\<open>id\<close> is
  a constant of HOL); an absent \<open>result\<close> or \<open>error\<close> is \<open>None\<close>.
\<close>

record json_rpc_request =
  req_method :: string
  req_params :: "(string \<times> json) list"
  req_id :: json

definition to_json :: "json_module \<Rightarrow> json_rpc_request \<Rightarrow> string" where
  "to_json js r =
     dumps js (JObj [(''jsonrpc'', JStr ''2.0''),
                     (''method'', JStr (req_method r)),
                     (''params'', JObj (req_params r)),
                     (''id'', req_id r)])"

record json_rpc_response =
  rsp_id :: json
  rsp_result :: json
  rsp_error :: json

definition from_json :: "json_module \<Rightarrow> string \<Rightarrow> exn + json_rpc_response" where
  "from_json js data =
     (case loads js data of
        Inl m \<Rightarrow> Inl (JSONDecodeError m)
      | Inr parsed \<Rightarrow>
          (case parsed of
             JObj d \<Rightarrow>
               Inr \<lparr>rsp_id = dict_get d ''id'' JNull,
                    rsp_result = dict_get d ''result'' JNull,
                    rsp_error = dict_get d ''error'' JNull\<rparr>
           | _ \<Rightarrow> Inl (no_get parsed)))"

definition is_error :: "json_rpc_response \<Rightarrow> bool" where
  "is_error r = (rsp_error r \<noteq> JNull)"

text \<open>
  The operating system. A child process is its command, its environment, whether it
  still runs (\<open>poll()\<close> is \<open>None\<close>) and the lines written to its standard input so
  far; a process handle is a position in the table, so a new process has a new handle.
\<close>

type_synonym environ = "(string \<times> string) list option"

record proc =
  p_command :: "string list"
  p_env :: environ
  p_running :: bool
  p_stdin :: "string list"

text \<open>
  The calls made on process handles (\<open>Popen(...)\<close>, \<open>terminate()\<close>,
  \<open>wait(timeout=5)\<close>, \<open>kill()\<close>) are recorded in the order they are made.
\<close>

datatype sys_call =
    Popen "string list" environ
  | Terminate nat
  | Wait nat
  | Kill nat

record world =
  procs :: "proc list"
  calls :: "sys_call list"

text \<open>
  What the code cannot decide is a parameter: whether \<open>Popen\<close> can launch a command
  (the exception it raises otherwise), whether a child exits within the five seconds
  after \<open>terminate()\<close>, the line a child answers with once it has read its input
  (empty at end of file) and what it has written to its standard error.
\<close>

record os_model =
  popen_error :: "string list \<Rightarrow> environ \<Rightarrow> exn option"
  heeds_terminate :: "proc \<Rightarrow> bool"
  child_reply :: "proc \<Rightarrow> string"
  child_stderr :: "proc \<Rightarrow> string"

definition poll_running :: "world \<Rightarrow> nat \<Rightarrow> bool" where
  "poll_running w p = (p < length (procs w) \<and> p_running (procs w ! p))"

definition set_exited :: "nat \<Rightarrow> world \<Rightarrow> world" where
  "set_exited p w =
     (if p < length (procs w)
      then w\<lparr>procs := (procs w)[p := (procs w ! p)\<lparr>p_running := False\<rparr>]\<rparr>
      else w)"

definition terminate :: "os_model \<Rightarrow> nat \<Rightarrow> world \<Rightarrow> world" where
  "terminate os p w =
     (let w1 = w\<lparr>calls := calls w @ [Terminate p]\<rparr>
      in if poll_running w p \<and> heeds_terminate os (procs w ! p) then set_exited p w1 else w1)"

definition wait :: "nat \<Rightarrow> world \<Rightarrow> world" where
  "wait p w = w\<lparr>calls := calls w @ [Wait p]\<rparr>"

definition kill :: "nat \<Rightarrow> world \<Rightarrow> world" where
  "kill p w = set_exited p (w\<lparr>calls := calls w @ [Kill p]\<rparr>)"

record transport =
  command :: "string list"
  env :: environ
  process :: "nat option"
  request_id :: int

text \<open>\<open>StdioTransport.__init__\<close>.\<close>

definition transport_init :: "string list \<Rightarrow> environ \<Rightarrow> transport" where
  "transport_init cmd e = \<lparr>command = cmd, env = e, process = None, request_id = 0\<rparr>"

definition is_alive :: "transport \<Rightarrow> world \<Rightarrow> bool" where
  "is_alive t w = (case process t of None \<Rightarrow> False | Some p \<Rightarrow> poll_running w p)"

text \<open>
  \<open>StdioTransport.stop\<close>: \<open>terminate()\<close>, \<open>wait(timeout=5)\<close>, \<open>kill()\<close> when the wait
  timed out (the child still runs), and the handle is dropped.
\<close>

definition transport_stop :: "os_model \<Rightarrow> transport \<times> world \<Rightarrow> transport \<times> world" where
  "transport_stop os s =
     (case s of (t, w) \<Rightarrow>
        (case process t of
           None \<Rightarrow> (t, w)
         | Some p \<Rightarrow>
             (let w1 = terminate os p w;
                  w2 = wait p w1;
                  w3 = (if poll_running w2 p then kill p w2 else w2)
              in (t\<lparr>process := None\<rparr>, w3))))"

text \<open>The \<open>Popen\<close> call of \<open>start\<close>: a new running child, or the exception.\<close>

definition launch :: "os_model \<Rightarrow> transport \<times> world \<Rightarrow> (exn + unit) \<times> transport \<times> world" where
  "launch os s =
     (case s of (t, w) \<Rightarrow>
        (let w1 = w\<lparr>calls := calls w @ [Popen (command t) (env t)]\<rparr>
         in case popen_error os (command t) (env t) of
              Some e \<Rightarrow> (Inl e, t, w1)
            | None \<Rightarrow>
                (Inr (), t\<lparr>process := Some (length (procs w))\<rparr>,
                 w1\<lparr>procs := procs w @
                    [\<lparr>p_command = command t, p_env = env t, p_running = True, p_stdin = []\<rparr>]\<rparr>)))"

definition transport_start :: "os_model \<Rightarrow> transport \<times> world \<Rightarrow> (exn + unit) \<times> transport \<times> world" where
  "transport_start os s =
     (case s of (t, w) \<Rightarrow>
        (if (case process t of None \<Rightarrow> False | Some p \<Rightarrow> poll_running w p)
         then launch os (transport_stop os (t, w))
         else launch os (t, w)))"

text \<open>
  \<open>StdioTransport.send\<close>. An empty \<open>readline()\<close> is the end of the child's output:
  the child is taken to have exited.
\<close>

definition send :: "os_model \<Rightarrow> json_module \<Rightarrow> json_rpc_request \<Rightarrow> transport \<times> world \<Rightarrow>
    (exn + json_rpc_response) \<times> transport \<times> world" where
  "send os js request s =
     (case s of (t, w) \<Rightarrow>
        (case process t of
           None \<Rightarrow> (Inl (RuntimeError ''Transport not running. Call start() first.''), t, w)
         | Some p \<Rightarrow>
             if \<not> poll_running w p
             then (Inl (RuntimeError ''Transport not running. Call start() first.''), t, w)
             else
               (let line = to_json js request @ [CHR 0x0A];
                    child = (procs w ! p)\<lparr>p_stdin := p_stdin (procs w ! p) @ [line]\<rparr>;
                    w1 = w\<lparr>procs := (procs w)[p := child]\<rparr>;
                    response_line = child_reply os child
                in if response_line = []
                   then (Inl (RuntimeError (''Tool server process died. stderr: '' @
                                            take 500 (child_stderr os child))),
                         t, set_exited p w1)
                   else (from_json js (strip response_line), t, w1))))"

definition next_id :: "transport \<Rightarrow> int \<times> transport" where
  "next_id t = (request_id t + 1, t\<lparr>request_id := request_id t + 1\<rparr>)"

section \<open>The manager: \<open>manager.py\<close>\<close>

text \<open>
  One entry of \<open>ToolServerManager._servers\<close> (the keys \<open>command\<close>,
  \<open>transport\<close>, \<open>env\<close> and \<open>tools\<close>, with a prefix). The transport object is held
  by the entry alone, so it is stored in it by value and written back after every call
  that changes it.
\<close>

record registration =
  srv_command :: "string list"
  srv_transport :: "transport option"
  srv_env :: environ
  srv_tools :: json

type_synonym manager = "(string \<times> registration) list"

definition register_server :: "string \<Rightarrow> string list \<Rightarrow> environ \<Rightarrow> manager \<Rightarrow> manager" where
  "register_server server_id cmd e m =
     AList.update server_id
       \<lparr>srv_command = cmd, srv_transport = None, srv_env = e, srv_tools = JArr []\<rparr> m"

definition set_transport :: "string \<Rightarrow> transport option \<Rightarrow> manager \<Rightarrow> manager" where
  "set_transport server_id t m =
     (case map_of m server_id of
        None \<Rightarrow> m
      | Some server \<Rightarrow> AList.update server_id (server\<lparr>srv_transport := t\<rparr>) m)"

definition set_tools :: "string \<Rightarrow> json \<Rightarrow> manager \<Rightarrow> manager" where
  "set_tools server_id ts m =
     (case map_of m server_id of
        None \<Rightarrow> m
      | Some server \<Rightarrow> AList.update server_id (server\<lparr>srv_tools := ts\<rparr>) m)"

text \<open>Truth of a value, for \<open>response.result or []\<close>.\<close>

fun py_truthy :: "json \<Rightarrow> bool" where
  "py_truthy JNull = False"
| "py_truthy (JBool b) = b"
| "py_truthy (JInt i) = (i \<noteq> 0)"
| "py_truthy (JStr s) = (s \<noteq> [])"
| "py_truthy (JArr xs) = (xs \<noteq> [])"
| "py_truthy (JObj d) = (d \<noteq> [])"

text \<open>
  The comprehension \<open>[t["name"] for t in server["tools"]]\<close>: iterating a list gives its
  items, a dict its keys, a string its characters, anything else raises; \<open>t["name"]\<close>
  needs a dict with that key.
\<close>

fun py_iter :: "json \<Rightarrow> exn + json list" where
  "py_iter (JArr xs) = Inr xs"
| "py_iter (JObj d) = Inr (map (\<lambda>kv. JStr (fst kv)) d)"
| "py_iter (JStr s) = Inr (map (\<lambda>c. JStr [c]) s)"
| "py_iter v = Inl (TypeError ([CHR 0x27] @ type_name v @ [CHR 0x27] @ '' object is not iterable''))"

fun subscript_name :: "json \<Rightarrow> exn + json" where
  "subscript_name (JObj d) =
     (case map_of d ''name'' of
        None \<Rightarrow> Inl (KeyError ([CHR 0x27] @ ''name'' @ [CHR 0x27]))
      | Some v \<Rightarrow> Inr v)"
| "subscript_name (JArr xs) = Inl (TypeError ''list indices must be integers or slices, not str'')"
| "subscript_name (JStr s) = Inl (TypeError ''string indices must be integers'')"
| "subscript_name v = Inl (TypeError ([CHR 0x27] @ type_name v @ [CHR 0x27] @ '' object is not subscriptable''))"

fun names_in :: "json list \<Rightarrow> exn + json list" where
  "names_in [] = Inr []"
| "names_in (t # ts) =
     (case subscript_name t of
        Inl e \<Rightarrow> Inl e
      | Inr n \<Rightarrow> (case names_in ts of Inl e \<Rightarrow> Inl e | Inr ns \<Rightarrow> Inr (n # ns)))"

definition tool_names_of :: "json \<Rightarrow> exn + json list" where
  "tool_names_of ts = (case py_iter ts of Inl e \<Rightarrow> Inl e | Inr xs \<Rightarrow> names_in xs)"

text \<open>\<open>ToolServerManager.start\<close>.\<close>

definition manager_start :: "os_model \<Rightarrow> json_module \<Rightarrow> string \<Rightarrow> manager \<times> world \<Rightarrow>
    (exn + json) \<times> manager \<times> world" where
  "manager_start os js server_id s =
     (case s of (m, w) \<Rightarrow>
        (case map_of m server_id of
           None \<Rightarrow> (Inl (ValueError (''Unknown server: '' @ server_id)), m, w)
         | Some server \<Rightarrow>
             (case transport_start os (transport_init (srv_command server) (srv_env server), w) of
                (Inl e, t1, w1) \<Rightarrow> (Inl e, m, w1)
              | (Inr u, t1, w1) \<Rightarrow>
                  (case next_id t1 of (rid, t2) \<Rightarrow>
                     (case send os js \<lparr>req_method = ''tools/list'', req_params = [], req_id = JInt rid\<rparr> (t2, w1) of
                        (Inl e, t3, w2) \<Rightarrow> (Inl e, set_transport server_id (Some t3) m, w2)
                      | (Inr response, t3, w2) \<Rightarrow>
                          (let m1 = set_transport server_id (Some t3) m
                           in if is_error response
                              then (Inl (RuntimeError (''Failed to discover tools from '' @ server_id @
                                                       '': '' @ py_str (rsp_error response))),
                                    m1, w2)
                              else
                                (let ts = (if py_truthy (rsp_result response)
                                           then rsp_result response else JArr []);
                                     m2 = set_tools server_id ts m1
                                 in case tool_names_of ts of
                                      Inl e \<Rightarrow> (Inl e, m2, w2)
                                    | Inr ns \<Rightarrow> (Inr ts, m2, w2))))))))"

text \<open>
  \<open>ToolServerManager.start_all\<close>: the loop over the keys of \<open>_servers\<close>, with the
  \<open>try\<close>/\<open>except Exception\<close> around each \<open>start\<close>. No statement outside the
  \<open>try\<close> can raise, so the result is the mapping itself.
\<close>

fun start_each :: "os_model \<Rightarrow> json_module \<Rightarrow> string list \<Rightarrow> (string \<times> json) list \<Rightarrow> manager \<times> world \<Rightarrow>
    (string \<times> json) list \<times> manager \<times> world" where
  "start_each os js [] results s = (results, s)"
| "start_each os js (server_id # ids) results s =
     (case manager_start os js server_id s of
        (Inl e, s') \<Rightarrow> start_each os js ids (AList.update server_id (JArr []) results) s'
      | (Inr ts, s') \<Rightarrow> start_each os js ids (AList.update server_id ts results) s')"

definition start_all :: "os_model \<Rightarrow> json_module \<Rightarrow> manager \<times> world \<Rightarrow>
    (string \<times> json) list \<times> manager \<times> world" where
  "start_all os js s = start_each os js (map fst (fst s)) [] s"

text \<open>\<open>ToolServerManager.stop\<close> and \<open>stop_all\<close>.\<close>

definition manager_stop :: "os_model \<Rightarrow> string \<Rightarrow> manager \<times> world \<Rightarrow> manager \<times> world" where
  "manager_stop os server_id s =
     (case s of (m, w) \<Rightarrow>
        (case map_of m server_id of
           None \<Rightarrow> (m, w)
         | Some server \<Rightarrow>
             (case srv_transport server of
                None \<Rightarrow> (m, w)
              | Some t \<Rightarrow>
                  (case transport_stop os (t, w) of
                     (t', w') \<Rightarrow> (set_transport server_id None m, w')))))"

definition stop_all :: "os_model \<Rightarrow> manager \<times> world \<Rightarrow> manager \<times> world" where
  "stop_all os s = fold (manager_stop os) (map fst (fst s)) s"

text \<open>\<open>ToolServerManager.call\<close>.\<close>

definition not_running :: "string \<Rightarrow> exn" where
  "not_running server_id = RuntimeError (''Server '' @ server_id @ '' is not running. Call start() first.'')"

definition call :: "os_model \<Rightarrow> json_module \<Rightarrow> string \<Rightarrow> string \<Rightarrow> (string \<times> json) list \<Rightarrow>
    manager \<times> world \<Rightarrow> (exn + json) \<times> manager \<times> world" where
  "call os js server_id tool_name arguments s =
     (case s of (m, w) \<Rightarrow>
        (case map_of m server_id of
           None \<Rightarrow> (Inl (ValueError (''Unknown server: '' @ server_id)), m, w)
         | Some server \<Rightarrow>
             (case srv_transport server of
                None \<Rightarrow> (Inl (not_running server_id), m, w)
              | Some t \<Rightarrow>
                  if \<not> is_alive t w then (Inl (not_running server_id), m, w)
                  else
                    (case next_id t of (rid, t1) \<Rightarrow>
                       (case send os js
                               \<lparr>req_method = ''tools/call'',
                                req_params = [(''name'', JStr tool_name), (''arguments'', JObj arguments)],
                                req_id = JInt rid\<rparr> (t1, w) of
                          (Inl e, t2, w1) \<Rightarrow> (Inl e, set_transport server_id (Some t2) m, w1)
                        | (Inr response, t2, w1) \<Rightarrow>
                            (if is_error response
                             then (Inl (RuntimeError (''Tool call failed ('' @ server_id @ ''/'' @ tool_name @
                                                      ''): '' @ py_str (rsp_error response))),
                                   set_transport server_id (Some t2) m, w1)
                             else (Inr (rsp_result response),
                                   set_transport server_id (Some t2) m, w1)))))))"

definition list_tools :: "string \<Rightarrow> manager \<Rightarrow> json" where
  "list_tools server_id m = (case map_of m server_id of None \<Rightarrow> JArr [] | Some server \<Rightarrow> srv_tools server)"

definition is_running :: "string \<Rightarrow> manager \<times> world \<Rightarrow> bool" where
  "is_running server_id s =
     (case s of (m, w) \<Rightarrow>
        (case map_of m server_id of
           None \<Rightarrow> False
         | Some server \<Rightarrow>
             (case srv_transport server of None \<Rightarrow> False | Some t \<Rightarrow> is_alive t w)))"

definition list_servers :: "manager \<times> world \<Rightarrow> (string \<times> bool) list" where
  "list_servers s = map (\<lambda>kv. (fst kv, is_running (fst kv) s)) (fst s)"


section \<open>A reference \<open>json\<close> module\<close>

text \<open>
  A concrete encoder and decoder with the defaults of the standard library, for the
  fragment of the model (integers, characters below 256): \<open>encode\<close> writes what
  \<open>json.dumps\<close> writes (separators \<open>", "\<close> and \<open>": "\<close>, every character outside
  the printable ASCII range escaped), \<open>decode\<close> reads what \<open>json.loads\<close> reads
  (whitespace between tokens, the two-character escapes and \<open>\uXXXX\<close>, a repeated key
  keeping its last value). A number with a fraction or an exponent and an escape beyond
  code 255 are outside the fragment and are rejected; the text of an error is its kind,
  without the position. The parser takes fuel, the length of the text, which bounds the
  nesting depth.
\<close>

definition json_escape_char :: "char \<Rightarrow> string" where
  "json_escape_char ch =
     (if ch = CHR 0x22 then [CHR 0x5C, CHR 0x22]
      else if ch = CHR 0x5C then [CHR 0x5C, CHR 0x5C]
      else if ch = CHR 0x0A then [CHR 0x5C, CHR ''n'']
      else if ch = CHR 0x0D then [CHR 0x5C, CHR ''r'']
      else if ch = CHR 0x09 then [CHR 0x5C, CHR ''t'']
      else if ch = CHR 0x08 then [CHR 0x5C, CHR ''b'']
      else if ch = CHR 0x0C then [CHR 0x5C, CHR ''f'']
      else if 32 \<le> (of_char ch :: nat) \<and> (of_char ch :: nat) < 127 then [ch]
      else [CHR 0x5C, CHR ''u'', CHR ''0'', CHR ''0'',
            hex_digit (of_char ch div 16), hex_digit (of_char ch mod 16)])"

definition encode_str :: "string \<Rightarrow> string" where
  "encode_str s = [CHR 0x22] @ concat (map json_escape_char s) @ [CHR 0x22]"

fun encode :: "json \<Rightarrow> string"
  and encode_items :: "json list \<Rightarrow> string list"
  and encode_pairs :: "(string \<times> json) list \<Rightarrow> string list" where
  "encode JNull = ''null''"
| "encode (JBool b) = (if b then ''true'' else ''false'')"
| "encode (JInt i) = str_int i"
| "encode (JStr s) = encode_str s"
| "encode (JArr xs) = ''['' @ join_comma (encode_items xs) @ '']''"
| "encode (JObj d) = ''{'' @ join_comma (encode_pairs d) @ ''}''"
| "encode_items [] = []"
| "encode_items (x # xs) = encode x # encode_items xs"
| "encode_pairs [] = []"
| "encode_pairs (kv # d) = (encode_str (fst kv) @ '': '' @ encode (snd kv)) # encode_pairs d"

definition json_ws :: "char \<Rightarrow> bool" where
  "json_ws ch = (ch = CHR '' '' \<or> ch = CHR 0x09 \<or> ch = CHR 0x0A \<or> ch = CHR 0x0D)"

definition skip_ws :: "string \<Rightarrow> string" where
  "skip_ws s = dropWhile json_ws s"

definition is_digit :: "char \<Rightarrow> bool" where
  "is_digit ch = (48 \<le> (of_char ch :: nat) \<and> (of_char ch :: nat) \<le> 57)"

definition digit_val :: "char \<Rightarrow> nat" where
  "digit_val ch = of_char ch - 48"

definition unhex :: "char \<Rightarrow> nat option" where
  "unhex ch =
     (let c = (of_char ch :: nat)
      in if 48 \<le> c \<and> c \<le> 57 then Some (c - 48)
         else if 97 \<le> c \<and> c \<le> 102 then Some (c - 87)
         else if 65 \<le> c \<and> c \<le> 70 then Some (c - 55)
         else None)"

fun unhex4 :: "string \<Rightarrow> nat option" where
  "unhex4 [a, b, c, d] =
     (case (unhex a, unhex b, unhex c, unhex d) of
        (Some x, Some y, Some z, Some w) \<Rightarrow> Some (((x * 16 + y) * 16 + z) * 16 + w)
      | _ \<Rightarrow> None)"
| "unhex4 _ = None"

definition unescape :: "char \<Rightarrow> char option" where
  "unescape e =
     (if e = CHR 0x22 then Some (CHR 0x22)
      else if e = CHR 0x5C then Some (CHR 0x5C)
      else if e = CHR ''/'' then Some (CHR ''/'')
      else if e = CHR ''b'' then Some (CHR 0x08)
      else if e = CHR ''f'' then Some (CHR 0x0C)
      else if e = CHR ''n'' then Some (CHR 0x0A)
      else if e = CHR ''r'' then Some (CHR 0x0D)
      else if e = CHR ''t'' then Some (CHR 0x09)
      else None)"

definition push :: "char \<Rightarrow> (string \<times> string) option \<Rightarrow> (string \<times> string) option" where
  "push ch r = (case r of None \<Rightarrow> None | Some (s, rest) \<Rightarrow> Some (ch # s, rest))"

function parse_string :: "string \<Rightarrow> (string \<times> string) option" where
  "parse_string [] = None"
| "parse_string (c # cs) =
     (if c = CHR 0x22 then Some ([], cs)
      else if c = CHR 0x5C then
        (case cs of
           [] \<Rightarrow> None
         | e # r \<Rightarrow>
             if e = CHR ''u'' then
               (case unhex4 (take 4 r) of
                  None \<Rightarrow> None
                | Some code \<Rightarrow> if code < 256 then push (char_of code) (parse_string (drop 4 r)) else None)
             else
               (case unescape e of
                  None \<Rightarrow> None
                | Some ch \<Rightarrow> push ch (parse_string r)))
      else if (of_char c :: nat) < 32 then None
      else push c (parse_string cs))"
  by pat_completeness auto
termination
  by (relation "measure length") auto

fun digits_val :: "nat \<Rightarrow> string \<Rightarrow> nat" where
  "digits_val acc [] = acc"
| "digits_val acc (c # cs) = digits_val (acc * 10 + digit_val c) cs"

definition parse_nat :: "string \<Rightarrow> (nat \<times> string) option" where
  "parse_nat s =
     (case s of
        [] \<Rightarrow> None
      | c # cs \<Rightarrow>
          if c = CHR ''0'' then Some (0, cs)
          else if is_digit c then Some (digits_val 0 (takeWhile is_digit s), dropWhile is_digit s)
          else None)"

definition parse_number :: "string \<Rightarrow> (json \<times> string) option" where
  "parse_number s =
     (let neg = (s \<noteq> [] \<and> hd s = CHR ''-'')
      in case parse_nat (if neg then tl s else s) of
           None \<Rightarrow> None
         | Some (n, rest) \<Rightarrow>
             if rest \<noteq> [] \<and> hd rest \<in> {CHR ''.'', CHR ''e'', CHR ''E''} then None
             else Some (JInt (if neg then - int n else int n), rest))"

definition starts_with :: "string \<Rightarrow> string \<Rightarrow> bool" where
  "starts_with p s = (take (length p) s = p)"

fun parse_value :: "nat \<Rightarrow> string \<Rightarrow> (json \<times> string) option"
  and parse_elements :: "nat \<Rightarrow> string \<Rightarrow> (json list \<times> string) option"
  and parse_members :: "nat \<Rightarrow> string \<Rightarrow> ((string \<times> json) list \<times> string) option" where
  "parse_value 0 s = None"
| "parse_value (Suc n) s =
     (if s = [] then None
      else if hd s = CHR 0x22 then
        (case parse_string (tl s) of
           None \<Rightarrow> None
         | Some (str, r) \<Rightarrow> Some (JStr str, r))
      else if hd s = CHR ''['' then
        (let r = skip_ws (tl s)
         in if r \<noteq> [] \<and> hd r = CHR '']'' then Some (JArr [], tl r)
            else (case parse_elements n r of
                    None \<Rightarrow> None
                  | Some (xs, r') \<Rightarrow> Some (JArr xs, r')))
      else if hd s = CHR ''{'' then
        (let r = skip_ws (tl s)
         in if r \<noteq> [] \<and> hd r = CHR ''}'' then Some (JObj [], tl r)
            else (case parse_members n r of
                    None \<Rightarrow> None
                  | Some (ps, r') \<Rightarrow> Some (JObj (fold (\<lambda>kv d. AList.update (fst kv) (snd kv) d) ps []), r')))
      else if starts_with ''null'' s then Some (JNull, drop 4 s)
      else if starts_with ''true'' s then Some (JBool True, drop 4 s)
      else if starts_with ''false'' s then Some (JBool False, drop 5 s)
      else parse_number s)"
| "parse_elements 0 s = None"
| "parse_elements (Suc n) s =
     (case parse_value n s of
        None \<Rightarrow> None
      | Some (v, r) \<Rightarrow>
          (let r1 = skip_ws r
           in if r1 = [] then None
              else if hd r1 = CHR '','' then
                (case parse_elements n (skip_ws (tl r1)) of
                   None \<Rightarrow> None
                 | Some (vs, r2) \<Rightarrow> Some (v # vs, r2))
              else if hd r1 = CHR '']'' then Some ([v], tl r1)
              else None))"
| "parse_members 0 s = None"
| "parse_members (Suc n) s =
     (if s = [] \<or> hd s \<noteq> CHR 0x22 then None
      else
        (case parse_string (tl s) of
           None \<Rightarrow> None
         | Some (key, r) \<Rightarrow>
             (let r1 = skip_ws r
              in if r1 = [] \<or> hd r1 \<noteq> CHR '':'' then None
                 else
                   (case parse_value n (skip_ws (tl r1)) of
                      None \<Rightarrow> None
                    | Some (v, r2) \<Rightarrow>
                        (let r3 = skip_ws r2
                         in if r3 = [] then None
                            else if hd r3 = CHR '','' then
                              (case parse_members n (skip_ws (tl r3)) of
                                 None \<Rightarrow> None
                               | Some (ps, r4) \<Rightarrow> Some ((key, v) # ps, r4))
                            else if hd r3 = CHR ''}'' then Some ([(key, v)], tl r3)
                            else None)))))"

definition decode :: "string \<Rightarrow> string + json" where
  "decode s =
     (case parse_value (Suc (length s)) (skip_ws s) of
        None \<Rightarrow> Inl ''Expecting value''
      | Some (v, rest) \<Rightarrow> if skip_ws rest = [] then Inr v else Inl ''Extra data'')"

definition python_json :: json_module where
  "python_json = \<lparr>loads = decode, dumps = encode\<rparr>"

section \<open>Notions the properties are stated with\<close>

text \<open>
  A request line is a line that is not blank and parses to an object; \<open>request_line\<close>
  gives the object.
\<close>

definition request_line :: "json_module \<Rightarrow> string \<Rightarrow> (string \<times> json) list option" where
  "request_line js raw =
     (if strip raw = [] then None
      else (case loads js (strip raw) of
              Inl e \<Rightarrow> None
            | Inr request \<Rightarrow> (case request of JObj d \<Rightarrow> Some d | _ \<Rightarrow> None)))"

text \<open>The response to a request object, the id a response carries, and a line of output.\<close>

definition response_to :: "handlers \<Rightarrow> (string \<times> json) list \<Rightarrow> json" where
  "response_to hs d =
     (let request_id = dict_get d ''id'' JNull
      in case dispatch hs (dict_get d ''method'' (JStr [])) (dict_get d ''params'' (JObj [])) of
           Inl e \<Rightarrow> error_response request_id (- 32603) (str_exn e)
         | Inr (Enc v) \<Rightarrow> result_response request_id v
         | Inr (NonEnc m) \<Rightarrow> error_response request_id (- 32603) m)"

text \<open>
  A name under which the lookup in \<open>_handlers\<close> finds nothing: a string that is not
  a registered name, or \<open>null\<close>, a boolean or a number (a list or a dict cannot be
  looked up at all).
\<close>

definition unregistered_name :: "handlers \<Rightarrow> json \<Rightarrow> bool" where
  "unregistered_name hs v =
     (case handlers_get hs v of
        Inl e \<Rightarrow> False
      | Inr found \<Rightarrow> (case found of None \<Rightarrow> True | Some handler \<Rightarrow> False))"

definition response_id :: "json \<Rightarrow> json" where
  "response_id r = (case r of JObj d \<Rightarrow> dict_get d ''id'' JNull | _ \<Rightarrow> JNull)"

definition stdout_line :: "json_module \<Rightarrow> json \<Rightarrow> string" where
  "stdout_line js r = dumps js r @ [CHR 0x0A]"

text \<open>
  The life of one transport: the calls made on it, in any order, with the operating
  system free to change between two calls. \<open>ids_returned\<close> collects what the calls of
  \<open>next_id\<close> return.
\<close>

datatype transport_op = Start | Stop | Send json_rpc_request | Is_alive | Next_id | Meanwhile world

fun transport_step :: "os_model \<Rightarrow> json_module \<Rightarrow> transport_op \<Rightarrow> transport \<times> world \<Rightarrow>
    int list \<times> transport \<times> world" where
  "transport_step os js Start s = ([], snd (transport_start os s))"
| "transport_step os js Stop s = ([], transport_stop os s)"
| "transport_step os js (Send r) s = ([], snd (send os js r s))"
| "transport_step os js Is_alive s = ([], s)"
| "transport_step os js Next_id s = (case next_id (fst s) of (i, t) \<Rightarrow> ([i], t, snd s))"
| "transport_step os js (Meanwhile w) s = ([], fst s, w)"

fun ids_returned :: "os_model \<Rightarrow> json_module \<Rightarrow> transport_op list \<Rightarrow> transport \<times> world \<Rightarrow> int list" where
  "ids_returned os js [] s = []"
| "ids_returned os js (x # xs) s =
     (case transport_step os js x s of (ids, s') \<Rightarrow> ids @ ids_returned os js xs s')"

section \<open>Concrete servers and systems\<close>

text \<open>\<open>len(v)\<close>.\<close>

fun py_len :: "json \<Rightarrow> exn + int" where
  "py_len (JStr s) = Inr (int (length s))"
| "py_len (JArr xs) = Inr (int (length xs))"
| "py_len (JObj d) = Inr (int (length d))"
| "py_len v = Inl (TypeError (''object of type '' @ [CHR 0x27] @ type_name v @ [CHR 0x27] @ '' has no len()''))"

text \<open>\<open>EchoTool\<close> of \<open>servers/echo.py\<close>.\<close>

definition echo_handle :: "json \<Rightarrow> exn + pyval" where
  "echo_handle params =
     (case params of
        JObj d \<Rightarrow>
          (let message = dict_get d ''message'' (JStr [])
           in case py_len message of
                Inl e \<Rightarrow> Inl e
              | Inr n \<Rightarrow> Inr (Enc (JObj [(''echoed'', message), (''length'', JInt n)])))
      | _ \<Rightarrow> Inl (no_get params))"

definition echo_tool :: tool_handler where
  "echo_tool =
     \<lparr>class_name = ''EchoTool'',
      name = ''echo'',
      description = ''Echoes back the input message. Useful for testing.'',
      parameters = [(''message'', JObj [(''type'', JStr ''string''),
                                        (''description'', JStr ''The message to echo back'')])],
      handle = echo_handle\<rparr>"

definition echo_handlers :: handlers where
  "echo_handlers = [(''echo'', echo_tool)]"

text \<open>Requests as the controller writes them, and a line of white space.\<close>

definition ping_request :: json_rpc_request where
  "ping_request = \<lparr>req_method = ''ping'', req_params = [], req_id = JInt 1\<rparr>"

definition echo_request :: json_rpc_request where
  "echo_request =
     \<lparr>req_method = ''tools/call'',
      req_params = [(''name'', JStr ''echo''), (''arguments'', JObj [(''message'', JStr ''hi'')])],
      req_id = JStr ''b''\<rparr>"

definition shout_request :: json_rpc_request where
  "shout_request =
     \<lparr>req_method = ''tools/call'',
      req_params = [(''name'', JStr ''shout''), (''arguments'', JObj [])],
      req_id = JInt 7\<rparr>"

definition request_object :: "json_rpc_request \<Rightarrow> (string \<times> json) list" where
  "request_object r =
     [(''jsonrpc'', JStr ''2.0''), (''method'', JStr (req_method r)),
      (''params'', JObj (req_params r)), (''id'', req_id r)]"

definition wire :: "json_rpc_request \<Rightarrow> string" where
  "wire r = to_json python_json r @ [CHR 0x0A]"



text \<open>
  A system where \<open>python -m mcp_tools.servers.echo\<close> is the echo server above (its
  answer is the last line the dispatch loop writes for the input it has read), and
  no other command can be launched.
\<close>

definition echo_command :: "string list" where
  "echo_command = [''python'', ''-m'', ''mcp_tools.servers.echo'']"

definition echo_os :: os_model where
  "echo_os =
     \<lparr>popen_error = (\<lambda>cmd e. if cmd = echo_command then None
                              else Some (OSError ''No such file or directory'')),
      heeds_terminate = (\<lambda>p. True),
      child_reply = (\<lambda>p. case fst (run python_json echo_handlers (p_stdin p) []) of
                            [] \<Rightarrow> [] | x # xs \<Rightarrow> last (x # xs)),
      child_stderr = (\<lambda>p. [])\<rparr>"

text \<open>A transport whose child, started once, still runs, or has exited by itself.\<close>

definition running_world :: world where
  "running_world =
     \<lparr>procs = [\<lparr>p_command = echo_command, p_env = None, p_running = True, p_stdin = []\<rparr>],
      calls = [Popen echo_command None]\<rparr>"

definition exited_world :: world where
  "exited_world =
     \<lparr>procs = [\<lparr>p_command = echo_command, p_env = None, p_running = False, p_stdin = []\<rparr>],
      calls = [Popen echo_command None]\<rparr>"

definition started_transport :: transport where
  "started_transport = \<lparr>command = echo_command, env = None, process = Some 0, request_id = 0\<rparr>"

text \<open>A manager with one registration.\<close>

definition calculator_registered :: manager where
  "calculator_registered =
     register_server ''calculator'' [''python'', ''-m'', ''mcp_tools.servers.calculator''] None []"

text \<open>
  The life of a manager: the calls made on it, in any order, with the operating system
  free to change between two calls.
\<close>

datatype manager_op =
    Register string "string list" environ
  | Start_server string
  | Start_all
  | Stop_server string
  | Stop_all
  | Call string string "(string \<times> json) list"
  | World_changes world

fun manager_step :: "os_model \<Rightarrow> json_module \<Rightarrow> manager_op \<Rightarrow> manager \<times> world \<Rightarrow> manager \<times> world" where
  "manager_step os js (Register server_id cmd e) s = (register_server server_id cmd e (fst s), snd s)"
| "manager_step os js (Start_server server_id) s = snd (manager_start os js server_id s)"
| "manager_step os js Start_all s = snd (start_all os js s)"
| "manager_step os js (Stop_server server_id) s = manager_stop os server_id s"
| "manager_step os js Stop_all s = stop_all os s"
| "manager_step os js (Call server_id tool arguments) s = snd (call os js server_id tool arguments s)"
| "manager_step os js (World_changes w) s = (fst s, w)"

definition manager_run :: "os_model \<Rightarrow> json_module \<Rightarrow> manager_op list \<Rightarrow> manager \<times> world \<Rightarrow> manager \<times> world" where
  "manager_run os js ops s = fold (manager_step os js) ops s"

text \<open>The calls that start a given server, and those that register it anew.\<close>

fun restarts :: "string \<Rightarrow> manager_op \<Rightarrow> bool" where
  "restarts server_id (Start_server k) = (k = server_id)"
| "restarts server_id Start_all = True"
| "restarts server_id x = False"

fun reregisters :: "string \<Rightarrow> manager_op \<Rightarrow> bool" where
  "reregisters server_id (Register k cmd e) = (k = server_id)"
| "reregisters server_id x = False"

text \<open>The process the manager holds for an id: the one of the transport of its registration.\<close>

definition held_process :: "string \<Rightarrow> manager \<Rightarrow> nat option" where
  "held_process server_id m =
     (case map_of m server_id of
        None \<Rightarrow> None
      | Some server \<Rightarrow> (case srv_transport server of None \<Rightarrow> None | Some t \<Rightarrow> process t))"

text \<open>
  What \<open>start\<close> returns for a server that is the only one registered, in a system with
  no process yet; and the entry \<open>start_all\<close> records for such a result.
\<close>

definition empty_world :: world where
  "empty_world = \<lparr>procs = [], calls = []\<rparr>"

definition start_alone :: "os_model \<Rightarrow> json_module \<Rightarrow> string \<Rightarrow> string list \<Rightarrow> environ \<Rightarrow> exn + json" where
  "start_alone os js server_id cmd e =
     fst (manager_start os js server_id (register_server server_id cmd e [], empty_world))"

definition schemas_or_empty :: "exn + json \<Rightarrow> json" where
  "schemas_or_empty r = (case r of Inl e \<Rightarrow> JArr [] | Inr ts \<Rightarrow> ts)"

text \<open>Two servers registered, the echo server and a command that cannot be launched.\<close>

definition two_servers :: manager where
  "two_servers = register_server ''B'' [''no-such-command''] None (register_server ''A'' echo_command None [])"

text \<open>A manager that has started the echo server, in the system this leaves.\<close>

definition echo_started :: "manager \<times> world" where
  "echo_started =
     snd (manager_start echo_os python_json ''echo'' (register_server ''echo'' echo_command None [], empty_world))"

definition echo_registration :: registration where
  "echo_registration =
     \<lparr>srv_command = echo_command,
      srv_transport = Some \<lparr>command = echo_command, env = None, process = Some 0, request_id = 1\<rparr>,
      srv_env = None,
      srv_tools = JArr [get_schema echo_tool]\<rparr>"

text \<open>
  Invariants of the manager: a registration with no transport attached; a registration
  that is a given one with its transport detached; the command and the environment
  registered under an id.
\<close>

definition detached :: "string \<Rightarrow> manager \<Rightarrow> bool" where
  "detached server_id m = (\<exists>r. map_of m server_id = Some r \<and> srv_transport r = None)"

definition kept :: "string \<Rightarrow> registration \<Rightarrow> manager \<Rightarrow> bool" where
  "kept server_id r m = (map_of m server_id = Some (r\<lparr>srv_transport := None\<rparr>))"

definition launch_spec :: "manager \<Rightarrow> string \<Rightarrow> (string list \<times> environ) option" where
  "launch_spec m k = map_option (\<lambda>r. (srv_command r, srv_env r)) (map_of m k)"

definition entry_for :: "os_model \<Rightarrow> json_module \<Rightarrow> manager \<Rightarrow> string \<Rightarrow> json" where
  "entry_for os js m k =
     (case launch_spec m k of
        None \<Rightarrow> JArr []
      | Some ce \<Rightarrow> schemas_or_empty (start_alone os js k (fst ce) (snd ce)))"




section \<open>Properties of the dispatch loop\<close>

lemma answer_writes_one:
  "answer js hs (dict_get d ''id'' JNull) (dict_get d ''method'' (JStr [])) (dict_get d ''params'' (JObj [])) out
   = out @ [stdout_line js (response_to hs d)]"
  by (simp add: answer_def response_to_def write_result_def write_error_def write_line_def
      stdout_line_def split: sum.splits pyval.splits)

lemma run_blank_line:
  "strip raw = [] \<Longrightarrow> run js hs (raw # rest) out = run js hs rest out"
  by simp

lemma run_request_step:
  assumes "request_line js raw = Some d"
  shows "run js hs (raw # rest) out = run js hs rest (out @ [stdout_line js (response_to hs d)])"
proof -
  from assms have ne: "strip raw \<noteq> []" and ld: "loads js (strip raw) = Inr (JObj d)"
    by (auto simp: request_line_def split: if_splits sum.splits json.splits)
  show ?thesis
    using ne ld by (simp add: Let_def answer_writes_one)
qed

lemma response_to_id: "response_id (response_to hs d) = dict_get d ''id'' JNull"
  by (simp add: response_to_def response_id_def error_response_def result_response_def
      dict_get_def Let_def split: sum.splits pyval.splits)

lemma run_requests:
  "map (request_line js) lines = map Some reqs \<Longrightarrow>
   run js hs lines out = (out @ map (\<lambda>d. stdout_line js (response_to hs d)) reqs, None)"
proof (induction lines arbitrary: reqs out)
  case Nil
  then show ?case by simp
next
  case (Cons raw lines)
  then obtain d ds where reqs: "reqs = d # ds" and hd: "request_line js raw = Some d"
    and tl: "map (request_line js) lines = map Some ds"
    by (cases reqs) auto
  show ?case
    unfolding reqs run_request_step[OF hd] Cons.IH[OF tl] by simp
qed

text \<open>
  Claim C1. Fed any finite sequence of request lines (each one not blank and parsing to
  an object \<open>reqs ! j\<close>), the loop of \<open>StdioToolServer.run\<close> reaches the end of its
  input and has written exactly one line per request line, in the order the requests
  were read, and the \<open>j\<close>-th response carries the id of the \<open>j\<close>-th request.
\<close>

theorem run_responses_in_order:
  assumes "map (request_line js) lines = map Some reqs"
  shows "run js hs lines [] = (map (\<lambda>d. stdout_line js (response_to hs d)) reqs, None)
       \<and> length (fst (run js hs lines [])) = length lines
       \<and> map (\<lambda>d. response_id (response_to hs d)) reqs = map (\<lambda>d. dict_get d ''id'' JNull) reqs"
proof -
  have len: "length lines = length reqs"
    using assms by (metis length_map)
  have out: "run js hs lines [] = (map (\<lambda>d. stdout_line js (response_to hs d)) reqs, None)"
    using run_requests[OF assms, of hs "[]"] by simp
  show ?thesis
    using out len by (simp add: response_to_id)
qed

theorem run_responses_in_order_witness:
  "run python_json echo_handlers [wire ping_request, wire echo_request] []
     = (map (\<lambda>d. stdout_line python_json (response_to echo_handlers d))
          [request_object ping_request, request_object echo_request], None)
   \<and> length (fst (run python_json echo_handlers [wire ping_request, wire echo_request] []))
       = length [wire ping_request, wire echo_request]
   \<and> map (\<lambda>d. response_id (response_to echo_handlers d))
         [request_object ping_request, request_object echo_request]
       = map (\<lambda>d. dict_get d ''id'' JNull) [request_object ping_request, request_object echo_request]"
proof -
  have h: "map (request_line python_json) [wire ping_request, wire echo_request]
             = map Some [request_object ping_request, request_object echo_request]"
    by code_simp
  show ?thesis
    by (rule run_responses_in_order[OF h])
qed




text \<open>
  Claim C6. For every \<open>tools/call\<close> request whose \<open>params\<close> is an object and whose
  \<open>params.name\<close> (the empty string when the key is absent) is not the name of a
  registered handler, the loop writes an error response with the id of the request and
  code -32603; its message contains the attempted name and the list of the available
  names, as Python prints them; and the loop goes on with the lines that follow.
\<close>

theorem unknown_tool_error:
  assumes "request_line js raw = Some d"
    and "dict_get d ''method'' (JStr []) = JStr ''tools/call''"
    and "dict_get d ''params'' (JObj []) = JObj p"
    and "unregistered_name hs (dict_get p ''name'' (JStr []))"
  shows "run js hs (raw # rest) out =
           run js hs rest
             (out @ [stdout_line js (error_response (dict_get d ''id'' JNull) (- 32603)
                                       (unknown_tool_message (dict_get p ''name'' (JStr [])) hs))])
       \<and> sublist (py_str (dict_get p ''name'' (JStr [])))
            (unknown_tool_message (dict_get p ''name'' (JStr [])) hs)
       \<and> sublist (py_repr (JArr (map JStr (tool_names hs))))
            (unknown_tool_message (dict_get p ''name'' (JStr [])) hs)"
proof -
  let ?v = "dict_get p ''name'' (JStr [])"
  have none: "handlers_get hs ?v = Inr None"
    using assms(4) by (simp add: unregistered_name_def split: sum.splits option.splits)
  have disp: "dispatch hs (dict_get d ''method'' (JStr [])) (dict_get d ''params'' (JObj []))
      = Inl (ValueError (unknown_tool_message ?v hs))"
    using assms(2,3) none by (simp add: dispatch_def Let_def)
  have resp: "response_to hs d =
      error_response (dict_get d ''id'' JNull) (- 32603) (unknown_tool_message ?v hs)"
    by (simp add: response_to_def disp Let_def)
  have s1: "sublist (py_str ?v) (unknown_tool_message ?v hs)"
    unfolding unknown_tool_message_def sublist_def
    by (rule exI[of _ "''Unknown tool: '' @ [CHR 0x27]"]) auto
  have s2: "sublist (py_repr (JArr (map JStr (tool_names hs)))) (unknown_tool_message ?v hs)"
    unfolding unknown_tool_message_def sublist_def
    by (rule exI[of _ "''Unknown tool: '' @ [CHR 0x27] @ py_str ?v @ [CHR 0x27] @ ''. '' @ ''Available: ''"]) auto
  show ?thesis
    using run_request_step[OF assms(1), of hs rest out] resp s1 s2 by simp
qed

theorem unknown_tool_error_witness:
  "run python_json echo_handlers (wire shout_request # [wire ping_request]) [] =
     run python_json echo_handlers [wire ping_request]
       ([] @ [stdout_line python_json
                (error_response (dict_get (request_object shout_request) ''id'' JNull) (- 32603)
                   (unknown_tool_message (dict_get (req_params shout_request) ''name'' (JStr [])) echo_handlers))])
   \<and> sublist (py_str (dict_get (req_params shout_request) ''name'' (JStr [])))
        (unknown_tool_message (dict_get (req_params shout_request) ''name'' (JStr [])) echo_handlers)
   \<and> sublist (py_repr (JArr (map JStr (tool_names echo_handlers))))
        (unknown_tool_message (dict_get (req_params shout_request) ''name'' (JStr [])) echo_handlers)
   \<and> py_str (dict_get (req_params shout_request) ''name'' (JStr [])) = ''shout''"
proof -
  have h1: "request_line python_json (wire shout_request) = Some (request_object shout_request)"
    by code_simp
  have h2: "dict_get (request_object shout_request) ''method'' (JStr []) = JStr ''tools/call''"
    by code_simp
  have h3: "dict_get (request_object shout_request) ''params'' (JObj [])
              = JObj (req_params shout_request)"
    by code_simp
  have h4: "unregistered_name echo_handlers (dict_get (req_params shout_request) ''name'' (JStr []))"
    by code_simp
  have h5: "py_str (dict_get (req_params shout_request) ''name'' (JStr [])) = ''shout''"
    by code_simp
  show ?thesis
    using unknown_tool_error[OF h1 h2 h3 h4, of "[wire ping_request]" "[]"] h5 by simp
qed

section \<open>Properties of the transport\<close>

lemma transport_stop_request_id: "request_id (fst (transport_stop os (t, w))) = request_id t"
  by (simp add: transport_stop_def Let_def split: option.splits)

lemma launch_request_id: "request_id (fst (snd (launch os (t, w)))) = request_id t"
  by (simp add: launch_def Let_def split: option.splits)

lemma transport_start_request_id: "request_id (fst (snd (transport_start os (t, w)))) = request_id t"
proof (cases "case process t of None \<Rightarrow> False | Some p \<Rightarrow> poll_running w p")
  case True
  obtain t' w' where st: "transport_stop os (t, w) = (t', w')"
    by (cases "transport_stop os (t, w)")
  have "request_id t' = request_id t"
    using transport_stop_request_id[of os t w] st by simp
  then show ?thesis
    using True st launch_request_id[of os t' w'] by (simp add: transport_start_def)
next
  case False
  then show ?thesis
    using launch_request_id[of os t w] by (simp add: transport_start_def)
qed

lemma send_request_id: "request_id (fst (snd (send os js r (t, w)))) = request_id t"
  by (simp add: send_def Let_def split: option.splits)

lemma step_not_next:
  "x \<noteq> Next_id \<Longrightarrow> transport_step os js x (t, w) = (ids, t', w') \<Longrightarrow>
   ids = [] \<and> request_id t' = request_id t"
  using transport_stop_request_id[of os t w] transport_start_request_id[of os t w]
    send_request_id[of os js _ t w]
  by (cases x) (auto simp: prod_eq_iff)

lemma shift_upt:
  "map (\<lambda>k. (a::int) + int k) [0 ..< Suc n] = a # map (\<lambda>k. a + 1 + int k) [0 ..< n]"
  by (induction n) (simp_all add: algebra_simps)

lemma ids_returned_from:
  "ids_returned os js xs (t, w) = map (\<lambda>k. request_id t + 1 + int k) [0 ..< count_list xs Next_id]"
proof (induction xs arbitrary: t w)
  case Nil
  then show ?case by simp
next
  case (Cons x xs)
  show ?case
  proof (cases "x = Next_id")
    case True
    then show ?thesis
      using Cons.IH[of "t\<lparr>request_id := request_id t + 1\<rparr>" w]
        shift_upt[of "request_id t + 1" "count_list xs Next_id"]
      by (simp add: next_id_def del: upt_Suc)
  next
    case False
    obtain ids t' w' where st: "transport_step os js x (t, w) = (ids, t', w')"
      by (cases "transport_step os js x (t, w)")
    from step_not_next[OF False st] have "ids = []" "request_id t' = request_id t"
      by auto
    then show ?thesis
      using False st Cons.IH[of t' w'] by simp
  qed
qed

lemma upt_from_one: "map (\<lambda>k. 1 + int k) [0 ..< n] = map int [1 ..< Suc n]"
  by (induction n) simp_all

text \<open>
  Claim C9. Whatever calls are made on a transport after \<open>__init__\<close>, in whatever
  order and whatever the operating system does in between, the values the successive
  calls of \<open>next_id\<close> return are 1, 2, 3, ...: the sequence starts at 1, is strictly
  increasing and never repeats a value.
\<close>

theorem next_id_sequence:
  "ids_returned os js xs (transport_init cmd e, w) = map int [1 ..< Suc (count_list xs Next_id)]
   \<and> sorted_wrt (<) (ids_returned os js xs (transport_init cmd e, w))
   \<and> distinct (ids_returned os js xs (transport_init cmd e, w))"
proof -
  have eq: "ids_returned os js xs (transport_init cmd e, w) = map int [1 ..< Suc (count_list xs Next_id)]"
    using upt_from_one[of "count_list xs Next_id"]
    by (simp add: ids_returned_from transport_init_def del: upt_Suc)
  have "sorted_wrt (<) (map int [1 ..< Suc (count_list xs Next_id)])"
    by (simp add: sorted_wrt_map del: upt_Suc)
  moreover have "distinct (map int [1 ..< Suc (count_list xs Next_id)])"
    by (simp add: distinct_map inj_on_def del: upt_Suc)
  ultimately show ?thesis
    using eq by simp
qed

theorem next_id_sequence_witness:
  "ids_returned echo_os python_json [Next_id, Start, Next_id, Send ping_request, Stop, Next_id]
     (transport_init echo_command None, \<lparr>procs = [], calls = []\<rparr>) = [1, 2, 3]"
proof -
  have "ids_returned echo_os python_json [Next_id, Start, Next_id, Send ping_request, Stop, Next_id]
          (transport_init echo_command None, \<lparr>procs = [], calls = []\<rparr>)
        = map int [1 ..< Suc (count_list [Next_id, Start, Next_id, Send ping_request, Stop, Next_id] Next_id)]"
    by (rule next_id_sequence[THEN conjunct1])
  also have "\<dots> = [1, 2, 3]"
    by code_simp
  finally show ?thesis .
qed

lemma poll_running_set_exited: "\<not> poll_running (set_exited p w) p"
  by (simp add: poll_running_def set_exited_def)

lemma stop_not_running:
  "process t = Some p \<Longrightarrow> \<not> poll_running (snd (transport_stop os (t, w))) p"
  by (simp add: transport_stop_def Let_def kill_def poll_running_set_exited)

lemma launch_keeps_old:
  "p < length (procs w) \<Longrightarrow> poll_running (snd (snd (launch os (t, w)))) p = poll_running w p"
  by (simp add: launch_def Let_def poll_running_def nth_append split: option.splits)

lemma length_procs_stop: "length (procs (snd (transport_stop os (t, w)))) = length (procs w)"
  by (simp add: transport_stop_def Let_def kill_def terminate_def wait_def set_exited_def
      split: option.splits)

text \<open>
  Claim C4, as stated, fails for a transport whose child has exited by itself: the second
  \<open>start()\<close> makes no call of \<open>stop()\<close> (no \<open>terminate()\<close>, no \<open>wait()\<close>: the only
  call it adds is the \<open>Popen\<close>) and binds the transport to a second process.
\<close>

theorem reentrant_start_counterexample:
  "process started_transport = Some 0
   \<and> calls exited_world = [Popen echo_command None]
   \<and> calls (snd (snd (transport_start echo_os (started_transport, exited_world))))
       = [Popen echo_command None, Popen echo_command None]
   \<and> process (fst (snd (transport_start echo_os (started_transport, exited_world)))) = Some 1
   \<and> calls (snd (transport_stop echo_os (started_transport, exited_world)))
       = [Popen echo_command None, Terminate 0, Wait 0]"
  by code_simp

text \<open>
  Claim C4, amended. For every transport that has been started (it holds a process of
  the system): when the child still runs, a second \<open>start()\<close> is a full \<open>stop()\<close>
  followed by the launch of the new child; when the child has exited, it is the launch
  alone. In both cases the old child does not run afterwards (no child is leaked), and a
  \<open>start()\<close> that returns has bound the transport to a new, running process.
\<close>

theorem reentrant_start:
  assumes "process t = Some p" and "p < length (procs w)"
  shows "(poll_running w p \<longrightarrow> transport_start os (t, w) = launch os (transport_stop os (t, w)))
       \<and> (\<not> poll_running w p \<longrightarrow> transport_start os (t, w) = launch os (t, w))
       \<and> \<not> poll_running (snd (snd (transport_start os (t, w)))) p
       \<and> (\<forall>u t' w'. transport_start os (t, w) = (Inr u, t', w') \<longrightarrow>
            process t' = Some (length (procs w)) \<and> process t' \<noteq> Some p
            \<and> poll_running w' (length (procs w)))"
proof -
  have a: "poll_running w p \<longrightarrow> transport_start os (t, w) = launch os (transport_stop os (t, w))"
    using assms by (simp add: transport_start_def)
  have b: "\<not> poll_running w p \<longrightarrow> transport_start os (t, w) = launch os (t, w)"
    using assms by (simp add: transport_start_def)
  have c: "\<not> poll_running (snd (snd (transport_start os (t, w)))) p"
  proof (cases "poll_running w p")
    case True
    obtain t1 w1 where st: "transport_stop os (t, w) = (t1, w1)"
      by (cases "transport_stop os (t, w)")
    have "\<not> poll_running w1 p"
      using stop_not_running[OF assms(1), of os w] st by simp
    moreover have "p < length (procs w1)"
      using length_procs_stop[of os t w] st assms(2) by simp
    ultimately show ?thesis
      using a True st launch_keeps_old[of p w1 os t1] by simp
  next
    case False
    then show ?thesis
      using b launch_keeps_old[OF assms(2), of os t] by simp
  qed
  have d: "\<forall>u t' w'. transport_start os (t, w) = (Inr u, t', w') \<longrightarrow>
            process t' = Some (length (procs w)) \<and> process t' \<noteq> Some p
            \<and> poll_running w' (length (procs w))"
  proof (cases "poll_running w p")
    case True
    obtain t1 w1 where st: "transport_stop os (t, w) = (t1, w1)"
      by (cases "transport_stop os (t, w)")
    have len: "length (procs w1) = length (procs w)"
      using length_procs_stop[of os t w] st by simp
    show ?thesis
      using a True st len assms(2)
      by (auto simp: launch_def Let_def poll_running_def nth_append split: option.splits)
  next
    case False
    then show ?thesis
      using b assms(2)
      by (auto simp: launch_def Let_def poll_running_def nth_append split: option.splits)
  qed
  show ?thesis
    using a b c d by blast
qed

theorem reentrant_start_witness:
  "transport_start echo_os (started_transport, running_world)
     = launch echo_os (transport_stop echo_os (started_transport, running_world))
   \<and> \<not> poll_running (snd (snd (transport_start echo_os (started_transport, running_world)))) 0"
proof -
  have h1: "process started_transport = Some 0"
    by code_simp
  have h2: "0 < length (procs running_world)"
    by code_simp
  have h3: "poll_running running_world 0"
    by code_simp
  show ?thesis
    using reentrant_start[OF h1 h2, of echo_os] h3 by blast
qed

section \<open>Properties of the manager\<close>

text \<open>
  Claim C3, as stated, fails: \<open>register_server\<close> has no check and no error. Registering
  \<open>calculator\<close> again with another command succeeds and replaces the registration.
\<close>

theorem register_server_counterexample:
  "map_of calculator_registered ''calculator''
     = Some \<lparr>srv_command = [''python'', ''-m'', ''mcp_tools.servers.calculator''],
             srv_transport = None, srv_env = None, srv_tools = JArr []\<rparr>
   \<and> map_of (register_server ''calculator'' [''node'', ''calc.js''] None calculator_registered)
       ''calculator''
     = Some \<lparr>srv_command = [''node'', ''calc.js''],
             srv_transport = None, srv_env = None, srv_tools = JArr []\<rparr>
   \<and> map_of (register_server ''calculator'' [''node'', ''calc.js''] None calculator_registered)
       ''calculator''
     \<noteq> map_of calculator_registered ''calculator''"
  by code_simp

text \<open>
  Claim C3, amended. For every manager state and every id, registered or not,
  \<open>register(id, command2, env2)\<close> does not fail: it stores under the id a registration
  with \<open>command2\<close> and \<open>env2\<close>, no transport and no tools, whatever was stored before;
  the other registrations and the order of the ids are unchanged (a new id comes last).
\<close>

theorem register_server_overwrites:
  "map_of (register_server server_id cmd2 e2 m)
     = (map_of m)(server_id \<mapsto>
         \<lparr>srv_command = cmd2, srv_transport = None, srv_env = e2, srv_tools = JArr []\<rparr>)
   \<and> map fst (register_server server_id cmd2 e2 m)
       = (if server_id \<in> set (map fst m) then map fst m else map fst m @ [server_id])"
  by (simp add: register_server_def update_conv' AList.update_keys)

theorem register_server_overwrites_witness:
  "map_of (register_server ''calculator'' [''node'', ''calc.js''] None calculator_registered) ''calculator''
     = Some \<lparr>srv_command = [''node'', ''calc.js''], srv_transport = None, srv_env = None,
             srv_tools = JArr []\<rparr>"
proof -
  have "map_of (register_server ''calculator'' [''node'', ''calc.js''] None calculator_registered)
      = (map_of calculator_registered)(''calculator'' \<mapsto>
          \<lparr>srv_command = [''node'', ''calc.js''], srv_transport = None, srv_env = None,
           srv_tools = JArr []\<rparr>)"
    by (rule register_server_overwrites[THEN conjunct1])
  then show ?thesis
    by simp
qed

lemma map_of_set_transport:
  "map_of (set_transport k t m) k' =
     (if k' = k then map_option (\<lambda>r. r\<lparr>srv_transport := t\<rparr>) (map_of m k) else map_of m k')"
  by (auto simp: set_transport_def update_conv' split: option.splits)

lemma map_of_set_tools:
  "map_of (set_tools k ts m) k' =
     (if k' = k then map_option (\<lambda>r. r\<lparr>srv_tools := ts\<rparr>) (map_of m k) else map_of m k')"
  by (auto simp: set_tools_def update_conv' split: option.splits)

lemma manager_start_other:
  assumes "k \<noteq> server_id"
  shows "map_of (fst (snd (manager_start os js k (m, w)))) server_id = map_of m server_id"
  using assms
  by (auto simp: manager_start_def Let_def map_of_set_transport map_of_set_tools
      split: option.splits prod.splits sum.splits)

lemma detached_stop: "detached sid m \<Longrightarrow> detached sid (fst (manager_stop os k (m, w)))"
  by (auto simp: detached_def manager_stop_def map_of_set_transport split: option.splits prod.splits)

lemma detached_stop_fold:
  "detached sid (fst s) \<Longrightarrow> detached sid (fst (fold (manager_stop os) ks s))"
proof (induction ks arbitrary: s)
  case Nil
  then show ?case by simp
next
  case (Cons k ks)
  obtain m w where s: "s = (m, w)" by (cases s)
  show ?case using Cons.prems s by (auto intro!: Cons.IH detached_stop)
qed

lemma detached_call:
  "detached sid m \<Longrightarrow> detached sid (fst (snd (call os js k tool args (m, w))))"
  by (auto simp: detached_def call_def map_of_set_transport next_id_def split: option.splits prod.splits sum.splits)

lemma detached_step:
  assumes "detached sid (fst s)" and "\<not> restarts sid x"
  shows "detached sid (fst (manager_step os js x s))"
proof -
  obtain m w where s: "s = (m, w)" by (cases s)
  show ?thesis
  proof (cases x)
    case (Register k cmd e)
    then show ?thesis using assms s by (auto simp: detached_def register_server_def update_conv')
  next
    case (Start_server k)
    then have "k \<noteq> sid" using assms(2) by simp
    then show ?thesis using assms(1) s Start_server manager_start_other[of k sid os js m w]
      by (simp add: detached_def)
  next
    case Start_all
    then show ?thesis using assms(2) by simp
  next
    case (Stop_server k)
    then show ?thesis using assms(1) s detached_stop[of sid m os k w] by simp
  next
    case Stop_all
    then show ?thesis using assms(1) detached_stop_fold[of sid s os] by (simp add: stop_all_def)
  next
    case (Call k tool args)
    then show ?thesis using assms(1) s detached_call[of sid m os js k tool args w] by simp
  next
    case (World_changes w')
    then show ?thesis using assms(1) by simp
  qed
qed

lemma detached_run:
  "detached sid (fst s) \<Longrightarrow> \<forall>x\<in>set ops. \<not> restarts sid x \<Longrightarrow> detached sid (fst (manager_run os js ops s))"
proof (induction ops arbitrary: s)
  case Nil
  then show ?case by (simp add: manager_run_def)
next
  case (Cons x ops)
  have "detached sid (fst (manager_step os js x s))"
    using Cons.prems by (auto intro: detached_step)
  then have "detached sid (fst (manager_run os js ops (manager_step os js x s)))"
    using Cons.IH Cons.prems(2) by simp
  then show ?case by (simp add: manager_run_def)
qed

lemma call_detached:
  "detached sid (fst s) \<Longrightarrow> call os js sid tool args s = (Inl (not_running sid), s)"
  by (cases s) (auto simp: detached_def call_def)

lemma kept_stop: "kept sid r m \<Longrightarrow> kept sid r (fst (manager_stop os k (m, w)))"
  by (auto simp: kept_def manager_stop_def map_of_set_transport split: option.splits prod.splits)

lemma kept_stop_fold:
  "kept sid r (fst s) \<Longrightarrow> kept sid r (fst (fold (manager_stop os) ks s))"
proof (induction ks arbitrary: s)
  case Nil
  then show ?case by simp
next
  case (Cons k ks)
  obtain m w where s: "s = (m, w)" by (cases s)
  show ?case using Cons.prems s by (auto intro!: Cons.IH kept_stop)
qed

lemma kept_call:
  "kept sid r m \<Longrightarrow> kept sid r (fst (snd (call os js k tool args (m, w))))"
  by (auto simp: kept_def call_def map_of_set_transport next_id_def split: option.splits prod.splits sum.splits)

lemma kept_step:
  assumes "kept sid r (fst s)" and "\<not> restarts sid x" and "\<not> reregisters sid x"
  shows "kept sid r (fst (manager_step os js x s))"
proof -
  obtain m w where s: "s = (m, w)" by (cases s)
  show ?thesis
  proof (cases x)
    case (Register k cmd e)
    then show ?thesis using assms s by (auto simp: kept_def register_server_def update_conv')
  next
    case (Start_server k)
    then have "k \<noteq> sid" using assms(2) by simp
    then show ?thesis using assms(1) s Start_server manager_start_other[of k sid os js m w]
      by (simp add: kept_def)
  next
    case Start_all
    then show ?thesis using assms(2) by simp
  next
    case (Stop_server k)
    then show ?thesis using assms(1) s kept_stop[of sid r m os k w] by simp
  next
    case Stop_all
    then show ?thesis using assms(1) kept_stop_fold[of sid r s os] by (simp add: stop_all_def)
  next
    case (Call k tool args)
    then show ?thesis using assms(1) s kept_call[of sid r m os js k tool args w] by simp
  next
    case (World_changes w')
    then show ?thesis using assms(1) by simp
  qed
qed

lemma kept_run:
  "kept sid r (fst s) \<Longrightarrow> \<forall>x\<in>set ops. \<not> restarts sid x \<and> \<not> reregisters sid x \<Longrightarrow>
   kept sid r (fst (manager_run os js ops s))"
proof (induction ops arbitrary: s)
  case Nil
  then show ?case by (simp add: manager_run_def)
next
  case (Cons x ops)
  have "kept sid r (fst (manager_step os js x s))"
    using Cons.prems by (auto intro: kept_step)
  then have "kept sid r (fst (manager_run os js ops (manager_step os js x s)))"
    using Cons.IH Cons.prems(2) by simp
  then show ?case by (simp add: manager_run_def)
qed

lemma stop_detaches:
  "map_of m sid = Some r \<Longrightarrow> map_of (fst (manager_stop os sid (m, w))) sid = Some (r\<lparr>srv_transport := None\<rparr>)"
  by (cases "srv_transport r") (auto simp: manager_stop_def map_of_set_transport split: prod.splits)

text \<open>
  Claim C8. For every registered server id (started or not), \<open>stop(id)\<close> detaches
  the transport and leaves the rest of the registration, the cached tool schemas among
  it, unchanged: \<open>list_tools(id)\<close> returns what it returned before. Whatever calls
  are made on the manager afterwards, as long as none of them starts the server again
  (\<open>start(id)\<close> or \<open>start_all()\<close>), \<open>call(id, tool, args)\<close> fails with the
  not-running error; and as long as none registers the id anew either, \<open>list_tools(id)\<close>
  still returns the schemas last discovered.
\<close>

theorem stop_keeps_schemas:
  assumes "map_of m server_id = Some r"
    and "\<forall>x\<in>set ops. \<not> restarts server_id x"
  shows "map_of (fst (manager_stop os server_id (m, w))) server_id = Some (r\<lparr>srv_transport := None\<rparr>)
       \<and> list_tools server_id (fst (manager_stop os server_id (m, w))) = list_tools server_id m
       \<and> fst (call os js server_id tool arguments
                (manager_run os js ops (manager_stop os server_id (m, w))))
           = Inl (not_running server_id)
       \<and> ((\<forall>x\<in>set ops. \<not> reregisters server_id x) \<longrightarrow>
            list_tools server_id (fst (manager_run os js ops (manager_stop os server_id (m, w))))
              = list_tools server_id m)"
proof -
  let ?s = "manager_stop os server_id (m, w)"
  have st: "map_of (fst ?s) server_id = Some (r\<lparr>srv_transport := None\<rparr>)"
    by (rule stop_detaches[OF assms(1)])
  have tools: "list_tools server_id (fst ?s) = list_tools server_id m"
    using st assms(1) by (simp add: list_tools_def)
  have det: "detached server_id (fst ?s)"
    using st by (simp add: detached_def)
  have "detached server_id (fst (manager_run os js ops ?s))"
    by (rule detached_run[OF det assms(2)])
  then have fails: "fst (call os js server_id tool arguments (manager_run os js ops ?s)) = Inl (not_running server_id)"
    by (simp add: call_detached)
  have later: "(\<forall>x\<in>set ops. \<not> reregisters server_id x) \<longrightarrow>
      list_tools server_id (fst (manager_run os js ops ?s)) = list_tools server_id m"
  proof
    assume nr: "\<forall>x\<in>set ops. \<not> reregisters server_id x"
    have "kept server_id r (fst ?s)" using st by (simp add: kept_def)
    then have "kept server_id r (fst (manager_run os js ops ?s))"
      using kept_run[of server_id r ?s ops os js] assms(2) nr by blast
    then show "list_tools server_id (fst (manager_run os js ops ?s)) = list_tools server_id m"
      using assms(1) by (simp add: kept_def list_tools_def)
  qed
  show ?thesis using st tools fails later by blast
qed

theorem stop_keeps_schemas_witness:
  "map_of (fst (manager_stop echo_os ''echo'' (fst echo_started, snd echo_started))) ''echo''
     = Some (echo_registration\<lparr>srv_transport := None\<rparr>)
   \<and> list_tools ''echo'' (fst (manager_stop echo_os ''echo'' (fst echo_started, snd echo_started)))
       = list_tools ''echo'' (fst echo_started)
   \<and> fst (call echo_os python_json ''echo'' ''echo'' [(''message'', JStr ''hi'')]
            (manager_run echo_os python_json
               [Call ''echo'' ''echo'' [], Stop_all, Register ''other'' [''x''] None, Start_server ''other'']
               (manager_stop echo_os ''echo'' (fst echo_started, snd echo_started))))
       = Inl (not_running ''echo'')
   \<and> list_tools ''echo''
         (fst (manager_run echo_os python_json
                 [Call ''echo'' ''echo'' [], Stop_all, Register ''other'' [''x''] None, Start_server ''other'']
                 (manager_stop echo_os ''echo'' (fst echo_started, snd echo_started))))
       = list_tools ''echo'' (fst echo_started)"
proof -
  have h1: "map_of (fst echo_started) ''echo'' = Some echo_registration"
    by code_simp
  have h2: "\<forall>x\<in>set [Call ''echo'' ''echo'' [], Stop_all, Register ''other'' [''x''] None,
                      Start_server ''other'']. \<not> restarts ''echo'' x"
    by simp
  have h3: "\<forall>x\<in>set [Call ''echo'' ''echo'' [], Stop_all, Register ''other'' [''x''] None,
                      Start_server ''other'']. \<not> reregisters ''echo'' x"
    by simp
  show ?thesis
    using stop_keeps_schemas[OF h1 h2, of echo_os "snd echo_started" python_json "''echo''"
        "[(''message'', JStr ''hi'')]"] h3
    by blast
qed

lemma held_process_set_transport:
  "held_process k' (set_transport k (Some t) m) =
     (if k' = k \<and> map_of m k \<noteq> None then process t else held_process k' m)"
  by (auto simp: held_process_def map_of_set_transport split: option.splits)

lemma held_process_set_tools:
  "held_process k' (set_tools k ts m) = held_process k' m"
  by (auto simp: held_process_def map_of_set_tools split: option.splits)

lemma start_fresh:
  assumes "popen_error os cmd e = None"
  shows "transport_start os (transport_init cmd e, w) =
     (Inr (), \<lparr>command = cmd, env = e, process = Some (length (procs w)), request_id = 0\<rparr>,
      w\<lparr>calls := calls w @ [Popen cmd e],
        procs := procs w @ [\<lparr>p_command = cmd, p_env = e, p_running = True, p_stdin = []\<rparr>]\<rparr>)"
  using assms by (simp add: transport_start_def transport_init_def launch_def Let_def)

lemma start_fresh_fails:
  assumes "popen_error os cmd e = Some x"
  shows "transport_start os (transport_init cmd e, w) =
     (Inl x, transport_init cmd e, w\<lparr>calls := calls w @ [Popen cmd e]\<rparr>)"
  using assms by (simp add: transport_start_def transport_init_def launch_def Let_def)

lemma send_world:
  assumes "send os js rq (t, w) = (res, t', w')"
  shows "t' = t \<and> calls w' = calls w \<and> length (procs w') = length (procs w)
       \<and> (\<forall>q. Some q \<noteq> process t \<longrightarrow> q < length (procs w) \<longrightarrow> procs w' ! q = procs w ! q)"
  using assms
  by (auto simp: send_def Let_def set_exited_def split: option.splits if_splits)

lemma manager_start_launched:
  assumes reg: "map_of m sid = Some r"
    and ok: "popen_error os (srv_command r) (srv_env r) = None"
    and res: "manager_start os js sid (m, w) = (res, m', w')"
  shows "held_process sid m' = Some (length (procs w))
       \<and> (\<forall>k. k \<noteq> sid \<longrightarrow> map_of m' k = map_of m k)
       \<and> calls w' = calls w @ [Popen (srv_command r) (srv_env r)]
       \<and> length (procs w') = Suc (length (procs w))
       \<and> (\<forall>q. q < length (procs w) \<longrightarrow> procs w' ! q = procs w ! q)"
proof -
  let ?t2 = "\<lparr>command = srv_command r, env = srv_env r, process = Some (length (procs w)), request_id = 1\<rparr>"
  let ?w1 = "w\<lparr>calls := calls w @ [Popen (srv_command r) (srv_env r)],
        procs := procs w @ [\<lparr>p_command = srv_command r, p_env = srv_env r, p_running = True, p_stdin = []\<rparr>]\<rparr>"
  let ?rq = "\<lparr>req_method = ''tools/list'', req_params = [], req_id = JInt 1\<rparr>"
  obtain sres t3 w2 where snd: "send os js ?rq (?t2, ?w1) = (sres, t3, w2)"
    by (cases "send os js ?rq (?t2, ?w1)")
  from send_world[OF snd] have t3: "t3 = ?t2" and c2: "calls w2 = calls ?w1"
    and l2: "length (procs w2) = length (procs ?w1)"
    and p2: "\<forall>q. Some q \<noteq> process ?t2 \<longrightarrow> q < length (procs ?w1) \<longrightarrow> procs w2 ! q = procs ?w1 ! q"
    by auto
  have w': "w' = w2"
    and m': "m' = set_transport sid (Some t3) m \<or> (\<exists>ts. m' = set_tools sid ts (set_transport sid (Some t3) m))"
    using res reg snd
    by (auto simp: manager_start_def start_fresh[OF ok] next_id_def Let_def
        split: sum.splits if_splits)
  have held: "held_process sid m' = Some (length (procs w))"
    using m' reg t3 by (auto simp: held_process_set_transport held_process_set_tools)
  have others: "\<forall>k. k \<noteq> sid \<longrightarrow> map_of m' k = map_of m k"
    using m' by (auto simp: map_of_set_transport map_of_set_tools)
  have old: "\<forall>q. q < length (procs w) \<longrightarrow> procs w' ! q = procs w ! q"
    using p2 w' by (auto simp: nth_append)
  show ?thesis
    using held others c2 l2 old w' by simp
qed

text \<open>
  Claim C10. For every manager whose registration for an id holds a transport with a
  running child \<open>p\<close> (held under no other id), a further \<open>start(id)\<close> whose launch
  succeeds puts a brand-new transport, bound to a new process, in the registration; it
  makes no call of \<open>stop()\<close> on the old transport (the only call it adds on a process
  handle is the \<open>Popen\<close>), so \<open>p\<close> is still running afterwards, and no registration of
  the manager holds it any more.
\<close>

theorem restart_leaks_child:
  assumes "map_of m server_id = Some r"
    and "held_process server_id m = Some p"
    and "poll_running w p"
    and "\<forall>k. k \<noteq> server_id \<longrightarrow> held_process k m \<noteq> Some p"
    and "popen_error os (srv_command r) (srv_env r) = None"
  shows "held_process server_id (fst (snd (manager_start os js server_id (m, w)))) = Some (length (procs w))
       \<and> Some (length (procs w)) \<noteq> Some p
       \<and> poll_running (snd (snd (manager_start os js server_id (m, w)))) p
       \<and> calls (snd (snd (manager_start os js server_id (m, w))))
           = calls w @ [Popen (srv_command r) (srv_env r)]
       \<and> (\<forall>k. held_process k (fst (snd (manager_start os js server_id (m, w)))) \<noteq> Some p)"
proof -
  obtain res m' w' where res: "manager_start os js server_id (m, w) = (res, m', w')"
    by (cases "manager_start os js server_id (m, w)")
  note L = manager_start_launched[OF assms(1) assms(5) res]
  have p: "p < length (procs w)" and run: "p_running (procs w ! p)"
    using assms(3) by (auto simp: poll_running_def)
  have still: "poll_running w' p"
    using L p run by (simp add: poll_running_def)
  have unreach: "\<forall>k. held_process k m' \<noteq> Some p"
  proof
    fix k
    show "held_process k m' \<noteq> Some p"
    proof (cases "k = server_id")
      case True
      then show ?thesis using L p by simp
    next
      case False
      then have "held_process k m' = held_process k m"
        using L by (simp add: held_process_def)
      then show ?thesis using assms(4) False by simp
    qed
  qed
  show ?thesis
    using res L p still unreach by simp
qed

theorem restart_leaks_child_witness:
  "held_process ''echo'' (fst (snd (manager_start echo_os python_json ''echo'' (fst echo_started, snd echo_started))))
     = Some (length (procs (snd echo_started)))
   \<and> Some (length (procs (snd echo_started))) \<noteq> Some 0
   \<and> poll_running (snd (snd (manager_start echo_os python_json ''echo'' (fst echo_started, snd echo_started)))) 0
   \<and> calls (snd (snd (manager_start echo_os python_json ''echo'' (fst echo_started, snd echo_started))))
       = calls (snd echo_started) @ [Popen (srv_command echo_registration) (srv_env echo_registration)]
   \<and> (\<forall>k. held_process k (fst (snd (manager_start echo_os python_json ''echo'' (fst echo_started, snd echo_started))))
          \<noteq> Some 0)"
proof -
  have m: "fst echo_started = [(''echo'', echo_registration)]"
    by code_simp
  have h1: "map_of (fst echo_started) ''echo'' = Some echo_registration"
    by (simp add: m)
  have h2: "held_process ''echo'' (fst echo_started) = Some 0"
    by (simp add: m held_process_def echo_registration_def)
  have h3: "poll_running (snd echo_started) 0"
    by code_simp
  have h4: "\<forall>k. k \<noteq> ''echo'' \<longrightarrow> held_process k (fst echo_started) \<noteq> Some 0"
    by (simp add: m held_process_def)
  have h5: "popen_error echo_os (srv_command echo_registration) (srv_env echo_registration) = None"
    by code_simp
  show ?thesis
    by (rule restart_leaks_child[OF h1 h2 h3 h4 h5])
qed

lemma send_fresh_fst:
  "fst (send os js rq
         (\<lparr>command = cmd, env = e, process = Some (length (procs w)), request_id = i\<rparr>,
          w\<lparr>calls := c, procs := procs w @ [\<lparr>p_command = cmd, p_env = e, p_running = True, p_stdin = []\<rparr>]\<rparr>))
   = (if child_reply os \<lparr>p_command = cmd, p_env = e, p_running = True, p_stdin = [to_json js rq @ [CHR 0x0A]]\<rparr> = []
      then Inl (RuntimeError (''Tool server process died. stderr: '' @
             take 500 (child_stderr os \<lparr>p_command = cmd, p_env = e, p_running = True, p_stdin = [to_json js rq @ [CHR 0x0A]]\<rparr>)))
      else from_json js (strip (child_reply os \<lparr>p_command = cmd, p_env = e, p_running = True, p_stdin = [to_json js rq @ [CHR 0x0A]]\<rparr>)))"
  by (simp add: send_def poll_running_def Let_def nth_append)

lemma manager_start_fst_cong:
  assumes "map_of m k = Some r" and "map_of m2 k = Some r2"
    and "srv_command r = srv_command r2" and "srv_env r = srv_env r2"
  shows "fst (manager_start os js k (m, w)) = fst (manager_start os js k (m2, w2))"
proof (cases "popen_error os (srv_command r) (srv_env r)")
  case (Some x)
  then show ?thesis
    using assms by (simp add: manager_start_def start_fresh_fails)
next
  case None
  let ?rq = "\<lparr>req_method = ''tools/list'', req_params = [], req_id = JInt 1\<rparr>"
  let ?t = "\<lambda>w. \<lparr>command = srv_command r, env = srv_env r, process = Some (length (procs w)), request_id = 1\<rparr>"
  let ?w = "\<lambda>w. w\<lparr>calls := calls w @ [Popen (srv_command r) (srv_env r)],
        procs := procs w @ [\<lparr>p_command = srv_command r, p_env = srv_env r, p_running = True, p_stdin = []\<rparr>]\<rparr>"
  obtain a ta wa where sa: "send os js ?rq (?t w, ?w w) = (a, ta, wa)"
    by (cases "send os js ?rq (?t w, ?w w)")
  obtain b tb wb where sb: "send os js ?rq (?t w2, ?w w2) = (b, tb, wb)"
    by (cases "send os js ?rq (?t w2, ?w w2)")
  have "a = b"
    using send_fresh_fst[of os js ?rq "srv_command r" "srv_env r" w 1 "calls w @ [Popen (srv_command r) (srv_env r)]"]
      send_fresh_fst[of os js ?rq "srv_command r" "srv_env r" w2 1 "calls w2 @ [Popen (srv_command r) (srv_env r)]"]
      sa sb by simp
  then show ?thesis
    using assms None sa sb
    by (auto simp: manager_start_def start_fresh next_id_def Let_def split: sum.splits)
qed

lemma manager_start_alone:
  assumes "map_of m k = Some r"
  shows "fst (manager_start os js k (m, w)) = start_alone os js k (srv_command r) (srv_env r)"
proof -
  have "map_of (register_server k (srv_command r) (srv_env r) []) k
      = Some \<lparr>srv_command = srv_command r, srv_transport = None, srv_env = srv_env r, srv_tools = JArr []\<rparr>"
    by (simp add: register_server_def)
  from manager_start_fst_cong[OF assms this, of os js w empty_world] show ?thesis
    by (simp add: start_alone_def)
qed

lemma manager_start_shape:
  "manager_start os js k (m, w) = (res, m', w') \<Longrightarrow>
   m' = m \<or> (\<exists>t. m' = set_transport k (Some t) m)
   \<or> (\<exists>t ts. m' = set_tools k ts (set_transport k (Some t) m))"
  by (auto simp: manager_start_def Let_def split: option.splits prod.splits sum.splits if_splits)

lemma launch_spec_start:
  "launch_spec (fst (snd (manager_start os js k (m, w)))) = launch_spec m"
proof -
  obtain res m' w' where res: "manager_start os js k (m, w) = (res, m', w')"
    by (cases "manager_start os js k (m, w)")
  from manager_start_shape[OF res] show ?thesis
    using res
    by (auto simp: launch_spec_def map_of_set_transport map_of_set_tools fun_eq_iff
        option.map_comp comp_def split: option.splits)
qed

lemma entry_for_start:
  "schemas_or_empty (fst (manager_start os js k (m, w))) = entry_for os js m k"
proof (cases "map_of m k")
  case None
  then show ?thesis
    by (simp add: entry_for_def launch_spec_def manager_start_def schemas_or_empty_def)
next
  case (Some r)
  then show ?thesis
    using manager_start_alone[OF Some, of os js w]
    by (simp add: entry_for_def launch_spec_def)
qed

lemma start_each_Cons:
  "start_each os js (k # ids) results s =
     start_each os js ids (AList.update k (schemas_or_empty (fst (manager_start os js k s))) results)
       (snd (manager_start os js k s))"
  by (cases "manager_start os js k s") (auto simp: schemas_or_empty_def split: sum.splits)

lemma start_each_results:
  "map_of (fst (start_each os js ids results (m, w))) k =
     (if k \<in> set ids then Some (entry_for os js m k) else map_of results k)"
proof (induction ids arbitrary: results m w)
  case Nil
  then show ?case by simp
next
  case (Cons k0 ids)
  obtain res m1 w1 where st: "manager_start os js k0 (m, w) = (res, m1, w1)"
    by (cases "manager_start os js k0 (m, w)")
  have ls: "launch_spec m1 = launch_spec m"
    using launch_spec_start[of os js k0 m w] st by simp
  then have ent: "entry_for os js m1 k = entry_for os js m k"
    by (simp add: entry_for_def)
  show ?case
    unfolding start_each_Cons st
    using Cons.IH[of "AList.update k0 (schemas_or_empty res) results" m1 w1] ent
      entry_for_start[of os js k0 m w] st
    by (auto simp: update_conv')
qed

lemma start_each_keys:
  "distinct ids \<Longrightarrow> set ids \<inter> set (map fst results) = {} \<Longrightarrow>
   map fst (fst (start_each os js ids results s)) = map fst results @ ids"
proof (induction ids arbitrary: results s)
  case Nil
  then show ?case by simp
next
  case (Cons k ids)
  have k: "k \<notin> fst ` set results" using Cons.prems(2) by auto
  have "map fst (AList.update k v results) = map fst results @ [k]" for v
    using k by (simp add: AList.update_keys)
  then show ?case
    unfolding start_each_Cons
    using Cons.prems Cons.IH[of "AList.update k (schemas_or_empty (fst (manager_start os js k s))) results"
        "snd (manager_start os js k s)"]
    by auto
qed

lemma manager_start_world:
  assumes "manager_start os js j (m, w) = (res, m', w')"
  shows "length (procs w) \<le> length (procs w')
       \<and> (\<forall>q. q < length (procs w) \<longrightarrow> procs w' ! q = procs w ! q)"
proof (cases "map_of m j")
  case None
  then show ?thesis using assms by (simp add: manager_start_def)
next
  case (Some r)
  show ?thesis
  proof (cases "popen_error os (srv_command r) (srv_env r)")
    case None
    from manager_start_launched[OF Some None assms] show ?thesis by simp
  next
    case (Some x)
    then show ?thesis
      using assms \<open>map_of m j = Some r\<close> by (auto simp: manager_start_def start_fresh_fails)
  qed
qed

lemma manager_start_keeps_running:
  assumes "j \<noteq> k" and "is_running k (m, w)"
  shows "is_running k (snd (manager_start os js j (m, w)))"
proof -
  obtain res m' w' where st: "manager_start os js j (m, w) = (res, m', w')"
    by (cases "manager_start os js j (m, w)")
  have same: "map_of m' k = map_of m k"
    using manager_start_other[OF assms(1), of os js m w] st by simp
  note W = manager_start_world[OF st]
  show ?thesis
    using assms(2) same W st
    by (auto simp: is_running_def is_alive_def poll_running_def split: option.splits)
qed

lemma send_ok_alive:
  assumes "send os js rq (t, w) = (Inr resp, t', w')"
  shows "is_alive t' w'"
  using assms
  by (auto simp: send_def Let_def is_alive_def poll_running_def split: option.splits if_splits)

lemma manager_start_ok_running:
  assumes "manager_start os js k (m, w) = (Inr ts, m', w')"
  shows "is_running k (m', w')"
proof -
  obtain r where reg: "map_of m k = Some r"
    using assms by (cases "map_of m k") (auto simp: manager_start_def)
  obtain u t1 w1 where ts: "transport_start os (transport_init (srv_command r) (srv_env r), w) = (Inr u, t1, w1)"
    using assms reg
    by (cases "transport_start os (transport_init (srv_command r) (srv_env r), w)")
      (auto simp: manager_start_def split: sum.splits)
  let ?rq = "\<lparr>req_method = ''tools/list'', req_params = [], req_id = JInt (request_id t1 + 1)\<rparr>"
  obtain resp t3 w2 where sd: "send os js ?rq (t1\<lparr>request_id := request_id t1 + 1\<rparr>, w1) = (Inr resp, t3, w2)"
    using assms reg ts
    by (cases "send os js ?rq (t1\<lparr>request_id := request_id t1 + 1\<rparr>, w1)")
      (auto simp: manager_start_def next_id_def split: sum.splits)
  have fin: "m' = set_tools k ts (set_transport k (Some t3) m)" "w' = w2"
    using assms reg ts sd
    by (auto simp: manager_start_def next_id_def Let_def split: sum.splits if_splits)
  have "is_alive t3 w2" by (rule send_ok_alive[OF sd])
  then show ?thesis
    using fin reg by (simp add: is_running_def map_of_set_tools map_of_set_transport)
qed

lemma start_each_keeps_running:
  "k \<notin> set ids \<Longrightarrow> is_running k s \<Longrightarrow> is_running k (snd (start_each os js ids results s))"
proof (induction ids arbitrary: results s)
  case Nil
  then show ?case by simp
next
  case (Cons j ids)
  obtain m w where s: "s = (m, w)" by (cases s)
  have "is_running k (snd (manager_start os js j s))"
    using Cons.prems manager_start_keeps_running[of j k m w os js] s by auto
  then show ?case
    unfolding start_each_Cons using Cons.IH Cons.prems(1) by simp
qed

lemma start_each_running:
  assumes "distinct ids" and "k \<in> set ids" and "map_of m k = Some r"
    and "start_alone os js k (srv_command r) (srv_env r) = Inr ts"
  shows "is_running k (snd (start_each os js ids results (m, w)))"
  using assms
proof (induction ids arbitrary: results m w r)
  case Nil
  then show ?case by simp
next
  case (Cons j ids)
  obtain res m1 w1 where st: "manager_start os js j (m, w) = (res, m1, w1)"
    by (cases "manager_start os js j (m, w)")
  show ?case
  proof (cases "j = k")
    case True
    have "res = Inr ts"
      using manager_start_alone[OF Cons.prems(3), of os js w] Cons.prems(4) st True by simp
    then have "is_running k (m1, w1)"
      using manager_start_ok_running[of os js k m w ts m1 w1] st True by simp
    moreover have "k \<notin> set ids" using Cons.prems(1) True by simp
    ultimately show ?thesis
      unfolding start_each_Cons st using start_each_keeps_running[of k ids "(m1, w1)" os js] by simp
  next
    case False
    then have kin: "k \<in> set ids" using Cons.prems(2) by simp
    have ls: "launch_spec m1 k = launch_spec m k"
      using launch_spec_start[of os js j m w] st by simp
    then obtain r1 where r1: "map_of m1 k = Some r1" "srv_command r1 = srv_command r" "srv_env r1 = srv_env r"
      using Cons.prems(3) by (auto simp: launch_spec_def)
    from Cons.prems(1) have d: "distinct ids" by simp
    have ok: "start_alone os js k (srv_command r1) (srv_env r1) = Inr ts"
      using Cons.prems(4) r1 by simp
    show ?thesis
      unfolding start_each_Cons st
      using Cons.IH[OF d kin r1(1) ok] by simp
  qed
qed

text \<open>
  Claim C5. For every set of registered servers (a dict: the ids are distinct),
  \<open>start_all()\<close> returns a mapping with exactly the registered ids, in their order; it
  has no way to raise (the model of \<open>start_all\<close> has no error result, every
  \<open>Exception\<close> of \<open>start\<close> being caught in the loop). Each id maps to what starting that
  server on its own gives, whatever happened to the others: the empty list when its start
  fails, its schemas when it succeeds, and then the server is running when \<open>start_all\<close>
  returns.
\<close>

theorem start_all_isolates_failures:
  assumes "distinct (map fst m)"
  shows "map fst (fst (start_all os js (m, w))) = map fst m
       \<and> (\<forall>k r e. map_of m k = Some r \<and> start_alone os js k (srv_command r) (srv_env r) = Inl e \<longrightarrow>
            map_of (fst (start_all os js (m, w))) k = Some (JArr []))
       \<and> (\<forall>k r ts. map_of m k = Some r \<and> start_alone os js k (srv_command r) (srv_env r) = Inr ts \<longrightarrow>
            map_of (fst (start_all os js (m, w))) k = Some ts
            \<and> is_running k (snd (start_all os js (m, w))))"
proof -
  have keys: "map fst (fst (start_all os js (m, w))) = map fst m"
    using start_each_keys[OF assms, of "[]" os js "(m, w)"] by (simp add: start_all_def)
  have entry: "map_of (fst (start_all os js (m, w))) k
      = Some (schemas_or_empty (start_alone os js k (srv_command r) (srv_env r)))"
    if "map_of m k = Some r" for k r
  proof -
    have "k \<in> set (map fst m)"
      using that by (metis map_of_eq_None_iff option.distinct(1) set_map)
    then show ?thesis
      using start_each_results[of os js "map fst m" "[]" m w k] that
      by (simp add: start_all_def entry_for_def launch_spec_def)
  qed
  have run: "is_running k (snd (start_all os js (m, w)))"
    if "map_of m k = Some r" "start_alone os js k (srv_command r) (srv_env r) = Inr ts" for k r ts
  proof -
    have "k \<in> set (map fst m)"
      using that(1) by (metis map_of_eq_None_iff option.distinct(1) set_map)
    then show ?thesis
      using start_each_running[OF assms _ that, of "[]" w] by (simp add: start_all_def)
  qed
  show ?thesis
    using keys entry run by (auto simp: schemas_or_empty_def)
qed

theorem start_all_isolates_failures_witness:
  "map fst (fst (start_all echo_os python_json (two_servers, empty_world))) = map fst two_servers
   \<and> map_of (fst (start_all echo_os python_json (two_servers, empty_world))) ''B'' = Some (JArr [])
   \<and> map_of (fst (start_all echo_os python_json (two_servers, empty_world))) ''A''
       = Some (JArr [get_schema echo_tool])
   \<and> is_running ''A'' (snd (start_all echo_os python_json (two_servers, empty_world)))"
proof -
  have h: "distinct (map fst two_servers)"
    by code_simp
  have a: "map_of two_servers ''A''
             = Some \<lparr>srv_command = echo_command, srv_transport = None, srv_env = None, srv_tools = JArr []\<rparr>
         \<and> start_alone echo_os python_json ''A''
             (srv_command \<lparr>srv_command = echo_command, srv_transport = None, srv_env = None, srv_tools = JArr []\<rparr>)
             (srv_env \<lparr>srv_command = echo_command, srv_transport = None, srv_env = None, srv_tools = JArr []\<rparr>)
           = Inr (JArr [get_schema echo_tool])"
    by code_simp
  have b: "map_of two_servers ''B''
             = Some \<lparr>srv_command = [''no-such-command''], srv_transport = None, srv_env = None, srv_tools = JArr []\<rparr>
         \<and> start_alone echo_os python_json ''B''
             (srv_command \<lparr>srv_command = [''no-such-command''], srv_transport = None, srv_env = None, srv_tools = JArr []\<rparr>)
             (srv_env \<lparr>srv_command = [''no-such-command''], srv_transport = None, srv_env = None, srv_tools = JArr []\<rparr>)
           = Inl (OSError ''No such file or directory'')"
    by code_simp
  note T = start_all_isolates_failures[OF h, of echo_os python_json empty_world]
  have keys: "map fst (fst (start_all echo_os python_json (two_servers, empty_world))) = map fst two_servers"
    by (rule T[THEN conjunct1])
  have fails: "map_of (fst (start_all echo_os python_json (two_servers, empty_world))) ''B'' = Some (JArr [])"
    by (rule T[THEN conjunct2, THEN conjunct1, rule_format, OF b])
  have works: "map_of (fst (start_all echo_os python_json (two_servers, empty_world))) ''A''
                 = Some (JArr [get_schema echo_tool])
             \<and> is_running ''A'' (snd (start_all echo_os python_json (two_servers, empty_world)))"
    by (rule T[THEN conjunct2, THEN conjunct2, rule_format, OF a])
  show ?thesis
    using keys fails works by simp
qed

section \<open>The reference module reads back what it writes\<close>





lemma parse_string_escaped:
  "e \<noteq> CHR ''u'' \<Longrightarrow> unescape e = Some c \<Longrightarrow>
   parse_string (CHR 0x5C # e # s) = push c (parse_string s)"
  by simp






declare str_nat.simps [simp del]























declare parse_value.simps(2) [simp del]

































end
